theory Spec2Isabelle
  imports Main "HOL-Library.Word" "HOL-Library.Sublist"
begin

section \<open>JavaScript strings\<close>

text \<open>
  The generator of \<^verbatim>\<open>src/templates/monad.ts\<close> builds text by template interpolation.
  A JavaScript string is a sequence of 16-bit code units, so the model uses lists of
  16-bit words. A literal of the source whose characters are all ASCII is written
  \<open>js ''...''\<close>; the code units of the source's other characters are written
  as numbers.
\<close>

type_synonym jschar = "16 word"
type_synonym jsstring = "jschar list"

definition js :: "string \<Rightarrow> jsstring" where
  "js s = map of_char s"

definition LF :: jschar where
  "LF = 0x0A"

definition dquote :: jschar where
  "dquote = 0x22"

definition squote :: jschar where
  "squote = 0x27"

definition backslash :: jschar where
  "backslash = 0x5C"

definition hyphen :: jschar where
  "hyphen = 0x2D"

text \<open>
  A template literal spans source lines; \<open>lines_text\<close> puts the line feed after
  each of them.
\<close>

definition lines_text :: "jsstring list \<Rightarrow> jsstring" where
  "lines_text ls = concat (map (\<lambda>l. l @ [LF]) ls)"

text \<open>\<^verbatim>\<open>Array.prototype.join\<close> on an array of strings.\<close>

fun join :: "jsstring \<Rightarrow> jsstring list \<Rightarrow> jsstring" where
  "join sep [] = []"
| "join sep [x] = x"
| "join sep (x # y # ys) = x @ sep @ join sep (y # ys)"

text \<open>
  The code points of a string, as StringToCodePoints of ECMAScript reads them: a lead
  surrogate followed by a trail surrogate is one code point above U+FFFF, every
  other code unit is the code point of its own number. \<open>utf16\<close> is
  CodePointToUTF16CodeUnits.
\<close>

definition isLeadSurrogate :: "jschar \<Rightarrow> bool" where
  "isLeadSurrogate c = (0xD800 \<le> c \<and> c \<le> 0xDBFF)"

definition isTrailSurrogate :: "jschar \<Rightarrow> bool" where
  "isTrailSurrogate c = (0xDC00 \<le> c \<and> c \<le> 0xDFFF)"

fun codePoints :: "jsstring \<Rightarrow> nat list" where
  "codePoints [] = []"
| "codePoints [c] = [unat c]"
| "codePoints (c # d # cs) =
     (if isLeadSurrogate c \<and> isTrailSurrogate d
      then (0x10000 + (unat c - 0xD800) * 0x400 + (unat d - 0xDC00)) # codePoints cs
      else unat c # codePoints (d # cs))"

definition utf16 :: "nat \<Rightarrow> jsstring" where
  "utf16 cp =
     (if cp < 0x10000 then [of_nat cp]
      else [of_nat (0xD800 + (cp - 0x10000) div 0x400), of_nat (0xDC00 + (cp - 0x10000) mod 0x400)])"

text \<open>
  \<^verbatim>\<open>String.prototype.toLowerCase\<close> maps the code points of the string by the
  lower-case mappings of the Unicode Character Database, which the engine carries
  in its tables; the tables here are those of Unicode 14.0. An entry
  \<open>(lo, hi, step, to)\<close> of the mappings sends the code points \<open>lo\<close>,
  \<open>lo + step\<close>, ... up to \<open>hi\<close> to \<open>to\<close>, \<open>to + step\<close>, ...
  The table is ordered by code point and cut into parts; \<open>lowercaseMappings cp\<close>
  is the part that holds the entries around \<open>cp\<close>.
\<close>

definition lowercaseMappings :: "nat \<Rightarrow> (nat \<times> nat \<times> nat \<times> nat) list" where
  "lowercaseMappings cp =
    (if cp < 0x0186 then
        [(0x0041, 0x005A, 1, 0x0061), (0x00C0, 0x00D6, 1, 0x00E0), (0x00D8, 0x00DE, 1, 0x00F8),
         (0x0100, 0x012E, 2, 0x0101), (0x0130, 0x0130, 1, 0x0069), (0x0132, 0x0136, 2, 0x0133),
         (0x0139, 0x0147, 2, 0x013A), (0x014A, 0x0176, 2, 0x014B), (0x0178, 0x0178, 1, 0x00FF),
         (0x0179, 0x017D, 2, 0x017A), (0x0181, 0x0181, 1, 0x0253), (0x0182, 0x0184, 2, 0x0183)]
     else if cp < 0x0198 then
        [(0x0186, 0x0186, 1, 0x0254), (0x0187, 0x0187, 1, 0x0188), (0x0189, 0x018A, 1, 0x0256),
         (0x018B, 0x018B, 1, 0x018C), (0x018E, 0x018E, 1, 0x01DD), (0x018F, 0x018F, 1, 0x0259),
         (0x0190, 0x0190, 1, 0x025B), (0x0191, 0x0191, 1, 0x0192), (0x0193, 0x0193, 1, 0x0260),
         (0x0194, 0x0194, 1, 0x0263), (0x0196, 0x0196, 1, 0x0269), (0x0197, 0x0197, 1, 0x0268)]
     else if cp < 0x01B3 then
        [(0x0198, 0x0198, 1, 0x0199), (0x019C, 0x019C, 1, 0x026F), (0x019D, 0x019D, 1, 0x0272),
         (0x019F, 0x019F, 1, 0x0275), (0x01A0, 0x01A4, 2, 0x01A1), (0x01A6, 0x01A6, 1, 0x0280),
         (0x01A7, 0x01A7, 1, 0x01A8), (0x01A9, 0x01A9, 1, 0x0283), (0x01AC, 0x01AC, 1, 0x01AD),
         (0x01AE, 0x01AE, 1, 0x0288), (0x01AF, 0x01AF, 1, 0x01B0), (0x01B1, 0x01B2, 1, 0x028A)]
     else if cp < 0x01F2 then
        [(0x01B3, 0x01B5, 2, 0x01B4), (0x01B7, 0x01B7, 1, 0x0292), (0x01B8, 0x01B8, 1, 0x01B9),
         (0x01BC, 0x01BC, 1, 0x01BD), (0x01C4, 0x01C4, 1, 0x01C6), (0x01C5, 0x01C5, 1, 0x01C6),
         (0x01C7, 0x01C7, 1, 0x01C9), (0x01C8, 0x01C8, 1, 0x01C9), (0x01CA, 0x01CA, 1, 0x01CC),
         (0x01CB, 0x01DB, 2, 0x01CC), (0x01DE, 0x01EE, 2, 0x01DF), (0x01F1, 0x01F1, 1, 0x01F3)]
     else if cp < 0x0244 then
        [(0x01F2, 0x01F4, 2, 0x01F3), (0x01F6, 0x01F6, 1, 0x0195), (0x01F7, 0x01F7, 1, 0x01BF),
         (0x01F8, 0x021E, 2, 0x01F9), (0x0220, 0x0220, 1, 0x019E), (0x0222, 0x0232, 2, 0x0223),
         (0x023A, 0x023A, 1, 0x2C65), (0x023B, 0x023B, 1, 0x023C), (0x023D, 0x023D, 1, 0x019A),
         (0x023E, 0x023E, 1, 0x2C66), (0x0241, 0x0241, 1, 0x0242), (0x0243, 0x0243, 1, 0x0180)]
     else if cp < 0x03CF then
        [(0x0244, 0x0244, 1, 0x0289), (0x0245, 0x0245, 1, 0x028C), (0x0246, 0x024E, 2, 0x0247),
         (0x0370, 0x0372, 2, 0x0371), (0x0376, 0x0376, 1, 0x0377), (0x037F, 0x037F, 1, 0x03F3),
         (0x0386, 0x0386, 1, 0x03AC), (0x0388, 0x038A, 1, 0x03AD), (0x038C, 0x038C, 1, 0x03CC),
         (0x038E, 0x038F, 1, 0x03CD), (0x0391, 0x03A1, 1, 0x03B1), (0x03A3, 0x03AB, 1, 0x03C3)]
     else if cp < 0x04C1 then
        [(0x03CF, 0x03CF, 1, 0x03D7), (0x03D8, 0x03EE, 2, 0x03D9), (0x03F4, 0x03F4, 1, 0x03B8),
         (0x03F7, 0x03F7, 1, 0x03F8), (0x03F9, 0x03F9, 1, 0x03F2), (0x03FA, 0x03FA, 1, 0x03FB),
         (0x03FD, 0x03FF, 1, 0x037B), (0x0400, 0x040F, 1, 0x0450), (0x0410, 0x042F, 1, 0x0430),
         (0x0460, 0x0480, 2, 0x0461), (0x048A, 0x04BE, 2, 0x048B), (0x04C0, 0x04C0, 1, 0x04CF)]
     else if cp < 0x1EA0 then
        [(0x04C1, 0x04CD, 2, 0x04C2), (0x04D0, 0x052E, 2, 0x04D1), (0x0531, 0x0556, 1, 0x0561),
         (0x10A0, 0x10C5, 1, 0x2D00), (0x10C7, 0x10C7, 1, 0x2D27), (0x10CD, 0x10CD, 1, 0x2D2D),
         (0x13A0, 0x13EF, 1, 0xAB70), (0x13F0, 0x13F5, 1, 0x13F8), (0x1C90, 0x1CBA, 1, 0x10D0),
         (0x1CBD, 0x1CBF, 1, 0x10FD), (0x1E00, 0x1E94, 2, 0x1E01), (0x1E9E, 0x1E9E, 1, 0x00DF)]
     else if cp < 0x1FBA then
        [(0x1EA0, 0x1EFE, 2, 0x1EA1), (0x1F08, 0x1F0F, 1, 0x1F00), (0x1F18, 0x1F1D, 1, 0x1F10),
         (0x1F28, 0x1F2F, 1, 0x1F20), (0x1F38, 0x1F3F, 1, 0x1F30), (0x1F48, 0x1F4D, 1, 0x1F40),
         (0x1F59, 0x1F5F, 2, 0x1F51), (0x1F68, 0x1F6F, 1, 0x1F60), (0x1F88, 0x1F8F, 1, 0x1F80),
         (0x1F98, 0x1F9F, 1, 0x1F90), (0x1FA8, 0x1FAF, 1, 0x1FA0), (0x1FB8, 0x1FB9, 1, 0x1FB0)]
     else if cp < 0x2126 then
        [(0x1FBA, 0x1FBB, 1, 0x1F70), (0x1FBC, 0x1FBC, 1, 0x1FB3), (0x1FC8, 0x1FCB, 1, 0x1F72),
         (0x1FCC, 0x1FCC, 1, 0x1FC3), (0x1FD8, 0x1FD9, 1, 0x1FD0), (0x1FDA, 0x1FDB, 1, 0x1F76),
         (0x1FE8, 0x1FE9, 1, 0x1FE0), (0x1FEA, 0x1FEB, 1, 0x1F7A), (0x1FEC, 0x1FEC, 1, 0x1FE5),
         (0x1FF8, 0x1FF9, 1, 0x1F78), (0x1FFA, 0x1FFB, 1, 0x1F7C), (0x1FFC, 0x1FFC, 1, 0x1FF3)]
     else if cp < 0x2C67 then
        [(0x2126, 0x2126, 1, 0x03C9), (0x212A, 0x212A, 1, 0x006B), (0x212B, 0x212B, 1, 0x00E5),
         (0x2132, 0x2132, 1, 0x214E), (0x2160, 0x216F, 1, 0x2170), (0x2183, 0x2183, 1, 0x2184),
         (0x24B6, 0x24CF, 1, 0x24D0), (0x2C00, 0x2C2F, 1, 0x2C30), (0x2C60, 0x2C60, 1, 0x2C61),
         (0x2C62, 0x2C62, 1, 0x026B), (0x2C63, 0x2C63, 1, 0x1D7D), (0x2C64, 0x2C64, 1, 0x027D)]
     else if cp < 0xA680 then
        [(0x2C67, 0x2C6B, 2, 0x2C68), (0x2C6D, 0x2C6D, 1, 0x0251), (0x2C6E, 0x2C6E, 1, 0x0271),
         (0x2C6F, 0x2C6F, 1, 0x0250), (0x2C70, 0x2C70, 1, 0x0252), (0x2C72, 0x2C72, 1, 0x2C73),
         (0x2C75, 0x2C75, 1, 0x2C76), (0x2C7E, 0x2C7F, 1, 0x023F), (0x2C80, 0x2CE2, 2, 0x2C81),
         (0x2CEB, 0x2CED, 2, 0x2CEC), (0x2CF2, 0x2CF2, 1, 0x2CF3), (0xA640, 0xA66C, 2, 0xA641)]
     else if cp < 0xA7AC then
        [(0xA680, 0xA69A, 2, 0xA681), (0xA722, 0xA72E, 2, 0xA723), (0xA732, 0xA76E, 2, 0xA733),
         (0xA779, 0xA77B, 2, 0xA77A), (0xA77D, 0xA77D, 1, 0x1D79), (0xA77E, 0xA786, 2, 0xA77F),
         (0xA78B, 0xA78B, 1, 0xA78C), (0xA78D, 0xA78D, 1, 0x0265), (0xA790, 0xA792, 2, 0xA791),
         (0xA796, 0xA7A8, 2, 0xA797), (0xA7AA, 0xA7AA, 1, 0x0266), (0xA7AB, 0xA7AB, 1, 0x025C)]
     else if cp < 0xA7D0 then
        [(0xA7AC, 0xA7AC, 1, 0x0261), (0xA7AD, 0xA7AD, 1, 0x026C), (0xA7AE, 0xA7AE, 1, 0x026A),
         (0xA7B0, 0xA7B0, 1, 0x029E), (0xA7B1, 0xA7B1, 1, 0x0287), (0xA7B2, 0xA7B2, 1, 0x029D),
         (0xA7B3, 0xA7B3, 1, 0xAB53), (0xA7B4, 0xA7C2, 2, 0xA7B5), (0xA7C4, 0xA7C4, 1, 0xA794),
         (0xA7C5, 0xA7C5, 1, 0x0282), (0xA7C6, 0xA7C6, 1, 0x1D8E), (0xA7C7, 0xA7C9, 2, 0xA7C8)]
     else if cp < 0x16E40 then
        [(0xA7D0, 0xA7D0, 1, 0xA7D1), (0xA7D6, 0xA7D8, 2, 0xA7D7), (0xA7F5, 0xA7F5, 1, 0xA7F6),
         (0xFF21, 0xFF3A, 1, 0xFF41), (0x10400, 0x10427, 1, 0x10428),
         (0x104B0, 0x104D3, 1, 0x104D8), (0x10570, 0x1057A, 1, 0x10597),
         (0x1057C, 0x1058A, 1, 0x105A3), (0x1058C, 0x10592, 1, 0x105B3),
         (0x10594, 0x10595, 1, 0x105BB), (0x10C80, 0x10CB2, 1, 0x10CC0),
         (0x118A0, 0x118BF, 1, 0x118C0)]
     else if cp < 0x110000 then
        [(0x16E40, 0x16E5F, 1, 0x16E60), (0x1E900, 0x1E921, 1, 0x1E922)]
     else [])"

definition covers :: "nat \<times> nat \<times> nat \<times> nat \<Rightarrow> nat \<Rightarrow> bool" where
  "covers e cp = (case e of (lo, hi, step, to) \<Rightarrow> lo \<le> cp \<and> cp \<le> hi \<and> (cp - lo) mod step = 0)"

definition target :: "nat \<times> nat \<times> nat \<times> nat \<Rightarrow> nat \<Rightarrow> nat" where
  "target e cp = (case e of (lo, hi, step, to) \<Rightarrow> to + (cp - lo))"

definition simpleLowercase :: "nat \<Rightarrow> nat" where
  "simpleLowercase cp =
     (case find (\<lambda>e. covers e cp) (lowercaseMappings cp) of
        Some e \<Rightarrow> target e cp
      | None \<Rightarrow> cp)"

text \<open>
  The ranges of the code points with the property Cased and of those with the
  property Case_Ignorable, cut into parts in the same way.
\<close>

definition casedRanges :: "nat \<Rightarrow> (nat \<times> nat) list" where
  "casedRanges cp =
    (if cp < 0x037A then
        [(0x0041, 0x005A), (0x0061, 0x007A), (0x00AA, 0x00AA), (0x00B5, 0x00B5),
         (0x00BA, 0x00BA), (0x00C0, 0x00D6), (0x00D8, 0x00F6), (0x00F8, 0x01BA),
         (0x01BC, 0x01BF), (0x01C4, 0x0293), (0x0295, 0x02B8), (0x02C0, 0x02C1),
         (0x02E0, 0x02E4), (0x0345, 0x0345), (0x0370, 0x0373), (0x0376, 0x0377)]
     else if cp < 0x13A0 then
        [(0x037A, 0x037D), (0x037F, 0x037F), (0x0386, 0x0386), (0x0388, 0x038A),
         (0x038C, 0x038C), (0x038E, 0x03A1), (0x03A3, 0x03F5), (0x03F7, 0x0481),
         (0x048A, 0x052F), (0x0531, 0x0556), (0x0560, 0x0588), (0x10A0, 0x10C5),
         (0x10C7, 0x10C7), (0x10CD, 0x10CD), (0x10D0, 0x10FA), (0x10FD, 0x10FF)]
     else if cp < 0x1FB6 then
        [(0x13A0, 0x13F5), (0x13F8, 0x13FD), (0x1C80, 0x1C88), (0x1C90, 0x1CBA),
         (0x1CBD, 0x1CBF), (0x1D00, 0x1DBF), (0x1E00, 0x1F15), (0x1F18, 0x1F1D),
         (0x1F20, 0x1F45), (0x1F48, 0x1F4D), (0x1F50, 0x1F57), (0x1F59, 0x1F59),
         (0x1F5B, 0x1F5B), (0x1F5D, 0x1F5D), (0x1F5F, 0x1F7D), (0x1F80, 0x1FB4)]
     else if cp < 0x2119 then
        [(0x1FB6, 0x1FBC), (0x1FBE, 0x1FBE), (0x1FC2, 0x1FC4), (0x1FC6, 0x1FCC),
         (0x1FD0, 0x1FD3), (0x1FD6, 0x1FDB), (0x1FE0, 0x1FEC), (0x1FF2, 0x1FF4),
         (0x1FF6, 0x1FFC), (0x2071, 0x2071), (0x207F, 0x207F), (0x2090, 0x209C),
         (0x2102, 0x2102), (0x2107, 0x2107), (0x210A, 0x2113), (0x2115, 0x2115)]
     else if cp < 0x2D00 then
        [(0x2119, 0x211D), (0x2124, 0x2124), (0x2126, 0x2126), (0x2128, 0x2128),
         (0x212A, 0x212D), (0x212F, 0x2134), (0x2139, 0x2139), (0x213C, 0x213F),
         (0x2145, 0x2149), (0x214E, 0x214E), (0x2160, 0x217F), (0x2183, 0x2184),
         (0x24B6, 0x24E9), (0x2C00, 0x2CE4), (0x2CEB, 0x2CEE), (0x2CF2, 0x2CF3)]
     else if cp < 0xFB00 then
        [(0x2D00, 0x2D25), (0x2D27, 0x2D27), (0x2D2D, 0x2D2D), (0xA640, 0xA66D),
         (0xA680, 0xA69D), (0xA722, 0xA787), (0xA78B, 0xA78E), (0xA790, 0xA7CA),
         (0xA7D0, 0xA7D1), (0xA7D3, 0xA7D3), (0xA7D5, 0xA7D9), (0xA7F5, 0xA7F6),
         (0xA7F8, 0xA7FA), (0xAB30, 0xAB5A), (0xAB5C, 0xAB68), (0xAB70, 0xABBF)]
     else if cp < 0x10783 then
        [(0xFB00, 0xFB06), (0xFB13, 0xFB17), (0xFF21, 0xFF3A), (0xFF41, 0xFF5A),
         (0x10400, 0x1044F), (0x104B0, 0x104D3), (0x104D8, 0x104FB), (0x10570, 0x1057A),
         (0x1057C, 0x1058A), (0x1058C, 0x10592), (0x10594, 0x10595), (0x10597, 0x105A1),
         (0x105A3, 0x105B1), (0x105B3, 0x105B9), (0x105BB, 0x105BC), (0x10780, 0x10780)]
     else if cp < 0x1D4C5 then
        [(0x10783, 0x10785), (0x10787, 0x107B0), (0x107B2, 0x107BA), (0x10C80, 0x10CB2),
         (0x10CC0, 0x10CF2), (0x118A0, 0x118DF), (0x16E40, 0x16E7F), (0x1D400, 0x1D454),
         (0x1D456, 0x1D49C), (0x1D49E, 0x1D49F), (0x1D4A2, 0x1D4A2), (0x1D4A5, 0x1D4A6),
         (0x1D4A9, 0x1D4AC), (0x1D4AE, 0x1D4B9), (0x1D4BB, 0x1D4BB), (0x1D4BD, 0x1D4C3)]
     else if cp < 0x1D750 then
        [(0x1D4C5, 0x1D505), (0x1D507, 0x1D50A), (0x1D50D, 0x1D514), (0x1D516, 0x1D51C),
         (0x1D51E, 0x1D539), (0x1D53B, 0x1D53E), (0x1D540, 0x1D544), (0x1D546, 0x1D546),
         (0x1D54A, 0x1D550), (0x1D552, 0x1D6A5), (0x1D6A8, 0x1D6C0), (0x1D6C2, 0x1D6DA),
         (0x1D6DC, 0x1D6FA), (0x1D6FC, 0x1D714), (0x1D716, 0x1D734), (0x1D736, 0x1D74E)]
     else if cp < 0x110000 then
        [(0x1D750, 0x1D76E), (0x1D770, 0x1D788), (0x1D78A, 0x1D7A8), (0x1D7AA, 0x1D7C2),
         (0x1D7C4, 0x1D7CB), (0x1DF00, 0x1DF09), (0x1DF0B, 0x1DF1E), (0x1E900, 0x1E943),
         (0x1F130, 0x1F149), (0x1F150, 0x1F169), (0x1F170, 0x1F189)]
     else [])"

definition caseIgnorableRanges :: "nat \<Rightarrow> (nat \<times> nat) list" where
  "caseIgnorableRanges cp =
    (if cp < 0x0559 then
        [(0x0027, 0x0027), (0x002E, 0x002E), (0x003A, 0x003A), (0x005E, 0x005E),
         (0x0060, 0x0060), (0x00A8, 0x00A8), (0x00AD, 0x00AD), (0x00AF, 0x00AF),
         (0x00B4, 0x00B4), (0x00B7, 0x00B8), (0x02B0, 0x036F), (0x0374, 0x0375),
         (0x037A, 0x037A), (0x0384, 0x0385), (0x0387, 0x0387), (0x0483, 0x0489)]
     else if cp < 0x06EA then
        [(0x0559, 0x0559), (0x055F, 0x055F), (0x0591, 0x05BD), (0x05BF, 0x05BF),
         (0x05C1, 0x05C2), (0x05C4, 0x05C5), (0x05C7, 0x05C7), (0x05F4, 0x05F4),
         (0x0600, 0x0605), (0x0610, 0x061A), (0x061C, 0x061C), (0x0640, 0x0640),
         (0x064B, 0x065F), (0x0670, 0x0670), (0x06D6, 0x06DD), (0x06DF, 0x06E8)]
     else if cp < 0x0941 then
        [(0x06EA, 0x06ED), (0x070F, 0x070F), (0x0711, 0x0711), (0x0730, 0x074A),
         (0x07A6, 0x07B0), (0x07EB, 0x07F5), (0x07FA, 0x07FA), (0x07FD, 0x07FD),
         (0x0816, 0x082D), (0x0859, 0x085B), (0x0888, 0x0888), (0x0890, 0x0891),
         (0x0898, 0x089F), (0x08C9, 0x0902), (0x093A, 0x093A), (0x093C, 0x093C)]
     else if cp < 0x0A51 then
        [(0x0941, 0x0948), (0x094D, 0x094D), (0x0951, 0x0957), (0x0962, 0x0963),
         (0x0971, 0x0971), (0x0981, 0x0981), (0x09BC, 0x09BC), (0x09C1, 0x09C4),
         (0x09CD, 0x09CD), (0x09E2, 0x09E3), (0x09FE, 0x09FE), (0x0A01, 0x0A02),
         (0x0A3C, 0x0A3C), (0x0A41, 0x0A42), (0x0A47, 0x0A48), (0x0A4B, 0x0A4D)]
     else if cp < 0x0B62 then
        [(0x0A51, 0x0A51), (0x0A70, 0x0A71), (0x0A75, 0x0A75), (0x0A81, 0x0A82),
         (0x0ABC, 0x0ABC), (0x0AC1, 0x0AC5), (0x0AC7, 0x0AC8), (0x0ACD, 0x0ACD),
         (0x0AE2, 0x0AE3), (0x0AFA, 0x0AFF), (0x0B01, 0x0B01), (0x0B3C, 0x0B3C),
         (0x0B3F, 0x0B3F), (0x0B41, 0x0B44), (0x0B4D, 0x0B4D), (0x0B55, 0x0B56)]
     else if cp < 0x0CCC then
        [(0x0B62, 0x0B63), (0x0B82, 0x0B82), (0x0BC0, 0x0BC0), (0x0BCD, 0x0BCD),
         (0x0C00, 0x0C00), (0x0C04, 0x0C04), (0x0C3C, 0x0C3C), (0x0C3E, 0x0C40),
         (0x0C46, 0x0C48), (0x0C4A, 0x0C4D), (0x0C55, 0x0C56), (0x0C62, 0x0C63),
         (0x0C81, 0x0C81), (0x0CBC, 0x0CBC), (0x0CBF, 0x0CBF), (0x0CC6, 0x0CC6)]
     else if cp < 0x0EC6 then
        [(0x0CCC, 0x0CCD), (0x0CE2, 0x0CE3), (0x0D00, 0x0D01), (0x0D3B, 0x0D3C),
         (0x0D41, 0x0D44), (0x0D4D, 0x0D4D), (0x0D62, 0x0D63), (0x0D81, 0x0D81),
         (0x0DCA, 0x0DCA), (0x0DD2, 0x0DD4), (0x0DD6, 0x0DD6), (0x0E31, 0x0E31),
         (0x0E34, 0x0E3A), (0x0E46, 0x0E4E), (0x0EB1, 0x0EB1), (0x0EB4, 0x0EBC)]
     else if cp < 0x1058 then
        [(0x0EC6, 0x0EC6), (0x0EC8, 0x0ECD), (0x0F18, 0x0F19), (0x0F35, 0x0F35),
         (0x0F37, 0x0F37), (0x0F39, 0x0F39), (0x0F71, 0x0F7E), (0x0F80, 0x0F84),
         (0x0F86, 0x0F87), (0x0F8D, 0x0F97), (0x0F99, 0x0FBC), (0x0FC6, 0x0FC6),
         (0x102D, 0x1030), (0x1032, 0x1037), (0x1039, 0x103A), (0x103D, 0x103E)]
     else if cp < 0x17C9 then
        [(0x1058, 0x1059), (0x105E, 0x1060), (0x1071, 0x1074), (0x1082, 0x1082),
         (0x1085, 0x1086), (0x108D, 0x108D), (0x109D, 0x109D), (0x10FC, 0x10FC),
         (0x135D, 0x135F), (0x1712, 0x1714), (0x1732, 0x1733), (0x1752, 0x1753),
         (0x1772, 0x1773), (0x17B4, 0x17B5), (0x17B7, 0x17BD), (0x17C6, 0x17C6)]
     else if cp < 0x1A62 then
        [(0x17C9, 0x17D3), (0x17D7, 0x17D7), (0x17DD, 0x17DD), (0x180B, 0x180F),
         (0x1843, 0x1843), (0x1885, 0x1886), (0x18A9, 0x18A9), (0x1920, 0x1922),
         (0x1927, 0x1928), (0x1932, 0x1932), (0x1939, 0x193B), (0x1A17, 0x1A18),
         (0x1A1B, 0x1A1B), (0x1A56, 0x1A56), (0x1A58, 0x1A5E), (0x1A60, 0x1A60)]
     else if cp < 0x1BE6 then
        [(0x1A62, 0x1A62), (0x1A65, 0x1A6C), (0x1A73, 0x1A7C), (0x1A7F, 0x1A7F),
         (0x1AA7, 0x1AA7), (0x1AB0, 0x1ACE), (0x1B00, 0x1B03), (0x1B34, 0x1B34),
         (0x1B36, 0x1B3A), (0x1B3C, 0x1B3C), (0x1B42, 0x1B42), (0x1B6B, 0x1B73),
         (0x1B80, 0x1B81), (0x1BA2, 0x1BA5), (0x1BA8, 0x1BA9), (0x1BAB, 0x1BAD)]
     else if cp < 0x1FBD then
        [(0x1BE6, 0x1BE6), (0x1BE8, 0x1BE9), (0x1BED, 0x1BED), (0x1BEF, 0x1BF1),
         (0x1C2C, 0x1C33), (0x1C36, 0x1C37), (0x1C78, 0x1C7D), (0x1CD0, 0x1CD2),
         (0x1CD4, 0x1CE0), (0x1CE2, 0x1CE8), (0x1CED, 0x1CED), (0x1CF4, 0x1CF4),
         (0x1CF8, 0x1CF9), (0x1D2C, 0x1D6A), (0x1D78, 0x1D78), (0x1D9B, 0x1DFF)]
     else if cp < 0x20D0 then
        [(0x1FBD, 0x1FBD), (0x1FBF, 0x1FC1), (0x1FCD, 0x1FCF), (0x1FDD, 0x1FDF),
         (0x1FED, 0x1FEF), (0x1FFD, 0x1FFE), (0x200B, 0x200F), (0x2018, 0x2019),
         (0x2024, 0x2024), (0x2027, 0x2027), (0x202A, 0x202E), (0x2060, 0x2064),
         (0x2066, 0x206F), (0x2071, 0x2071), (0x207F, 0x207F), (0x2090, 0x209C)]
     else if cp < 0xA66F then
        [(0x20D0, 0x20F0), (0x2C7C, 0x2C7D), (0x2CEF, 0x2CF1), (0x2D6F, 0x2D6F),
         (0x2D7F, 0x2D7F), (0x2DE0, 0x2DFF), (0x2E2F, 0x2E2F), (0x3005, 0x3005),
         (0x302A, 0x302D), (0x3031, 0x3035), (0x303B, 0x303B), (0x3099, 0x309E),
         (0x30FC, 0x30FE), (0xA015, 0xA015), (0xA4F8, 0xA4FD), (0xA60C, 0xA60C)]
     else if cp < 0xA8E0 then
        [(0xA66F, 0xA672), (0xA674, 0xA67D), (0xA67F, 0xA67F), (0xA69C, 0xA69F),
         (0xA6F0, 0xA6F1), (0xA700, 0xA721), (0xA770, 0xA770), (0xA788, 0xA78A),
         (0xA7F2, 0xA7F4), (0xA7F8, 0xA7F9), (0xA802, 0xA802), (0xA806, 0xA806),
         (0xA80B, 0xA80B), (0xA825, 0xA826), (0xA82C, 0xA82C), (0xA8C4, 0xA8C5)]
     else if cp < 0xAA7C then
        [(0xA8E0, 0xA8F1), (0xA8FF, 0xA8FF), (0xA926, 0xA92D), (0xA947, 0xA951),
         (0xA980, 0xA982), (0xA9B3, 0xA9B3), (0xA9B6, 0xA9B9), (0xA9BC, 0xA9BD),
         (0xA9CF, 0xA9CF), (0xA9E5, 0xA9E6), (0xAA29, 0xAA2E), (0xAA31, 0xAA32),
         (0xAA35, 0xAA36), (0xAA43, 0xAA43), (0xAA4C, 0xAA4C), (0xAA70, 0xAA70)]
     else if cp < 0xFBB2 then
        [(0xAA7C, 0xAA7C), (0xAAB0, 0xAAB0), (0xAAB2, 0xAAB4), (0xAAB7, 0xAAB8),
         (0xAABE, 0xAABF), (0xAAC1, 0xAAC1), (0xAADD, 0xAADD), (0xAAEC, 0xAAED),
         (0xAAF3, 0xAAF4), (0xAAF6, 0xAAF6), (0xAB5B, 0xAB5F), (0xAB69, 0xAB6B),
         (0xABE5, 0xABE5), (0xABE8, 0xABE8), (0xABED, 0xABED), (0xFB1E, 0xFB1E)]
     else if cp < 0x101FD then
        [(0xFBB2, 0xFBC2), (0xFE00, 0xFE0F), (0xFE13, 0xFE13), (0xFE20, 0xFE2F),
         (0xFE52, 0xFE52), (0xFE55, 0xFE55), (0xFEFF, 0xFEFF), (0xFF07, 0xFF07),
         (0xFF0E, 0xFF0E), (0xFF1A, 0xFF1A), (0xFF3E, 0xFF3E), (0xFF40, 0xFF40),
         (0xFF70, 0xFF70), (0xFF9E, 0xFF9F), (0xFFE3, 0xFFE3), (0xFFF9, 0xFFFB)]
     else if cp < 0x11001 then
        [(0x101FD, 0x101FD), (0x102E0, 0x102E0), (0x10376, 0x1037A), (0x10780, 0x10785),
         (0x10787, 0x107B0), (0x107B2, 0x107BA), (0x10A01, 0x10A03), (0x10A05, 0x10A06),
         (0x10A0C, 0x10A0F), (0x10A38, 0x10A3A), (0x10A3F, 0x10A3F), (0x10AE5, 0x10AE6),
         (0x10D24, 0x10D27), (0x10EAB, 0x10EAC), (0x10F46, 0x10F50), (0x10F82, 0x10F85)]
     else if cp < 0x111C9 then
        [(0x11001, 0x11001), (0x11038, 0x11046), (0x11070, 0x11070), (0x11073, 0x11074),
         (0x1107F, 0x11081), (0x110B3, 0x110B6), (0x110B9, 0x110BA), (0x110BD, 0x110BD),
         (0x110C2, 0x110C2), (0x110CD, 0x110CD), (0x11100, 0x11102), (0x11127, 0x1112B),
         (0x1112D, 0x11134), (0x11173, 0x11173), (0x11180, 0x11181), (0x111B6, 0x111BE)]
     else if cp < 0x1145E then
        [(0x111C9, 0x111CC), (0x111CF, 0x111CF), (0x1122F, 0x11231), (0x11234, 0x11234),
         (0x11236, 0x11237), (0x1123E, 0x1123E), (0x112DF, 0x112DF), (0x112E3, 0x112EA),
         (0x11300, 0x11301), (0x1133B, 0x1133C), (0x11340, 0x11340), (0x11366, 0x1136C),
         (0x11370, 0x11374), (0x11438, 0x1143F), (0x11442, 0x11444), (0x11446, 0x11446)]
     else if cp < 0x1171D then
        [(0x1145E, 0x1145E), (0x114B3, 0x114B8), (0x114BA, 0x114BA), (0x114BF, 0x114C0),
         (0x114C2, 0x114C3), (0x115B2, 0x115B5), (0x115BC, 0x115BD), (0x115BF, 0x115C0),
         (0x115DC, 0x115DD), (0x11633, 0x1163A), (0x1163D, 0x1163D), (0x1163F, 0x11640),
         (0x116AB, 0x116AB), (0x116AD, 0x116AD), (0x116B0, 0x116B5), (0x116B7, 0x116B7)]
     else if cp < 0x11A59 then
        [(0x1171D, 0x1171F), (0x11722, 0x11725), (0x11727, 0x1172B), (0x1182F, 0x11837),
         (0x11839, 0x1183A), (0x1193B, 0x1193C), (0x1193E, 0x1193E), (0x11943, 0x11943),
         (0x119D4, 0x119D7), (0x119DA, 0x119DB), (0x119E0, 0x119E0), (0x11A01, 0x11A0A),
         (0x11A33, 0x11A38), (0x11A3B, 0x11A3E), (0x11A47, 0x11A47), (0x11A51, 0x11A56)]
     else if cp < 0x11D95 then
        [(0x11A59, 0x11A5B), (0x11A8A, 0x11A96), (0x11A98, 0x11A99), (0x11C30, 0x11C36),
         (0x11C38, 0x11C3D), (0x11C3F, 0x11C3F), (0x11C92, 0x11CA7), (0x11CAA, 0x11CB0),
         (0x11CB2, 0x11CB3), (0x11CB5, 0x11CB6), (0x11D31, 0x11D36), (0x11D3A, 0x11D3A),
         (0x11D3C, 0x11D3D), (0x11D3F, 0x11D45), (0x11D47, 0x11D47), (0x11D90, 0x11D91)]
     else if cp < 0x1CF00 then
        [(0x11D95, 0x11D95), (0x11D97, 0x11D97), (0x11EF3, 0x11EF4), (0x13430, 0x13438),
         (0x16AF0, 0x16AF4), (0x16B30, 0x16B36), (0x16B40, 0x16B43), (0x16F4F, 0x16F4F),
         (0x16F8F, 0x16F9F), (0x16FE0, 0x16FE1), (0x16FE3, 0x16FE4), (0x1AFF0, 0x1AFF3),
         (0x1AFF5, 0x1AFFB), (0x1AFFD, 0x1AFFE), (0x1BC9D, 0x1BC9E), (0x1BCA0, 0x1BCA3)]
     else if cp < 0x1E023 then
        [(0x1CF00, 0x1CF2D), (0x1CF30, 0x1CF46), (0x1D167, 0x1D169), (0x1D173, 0x1D182),
         (0x1D185, 0x1D18B), (0x1D1AA, 0x1D1AD), (0x1D242, 0x1D244), (0x1DA00, 0x1DA36),
         (0x1DA3B, 0x1DA6C), (0x1DA75, 0x1DA75), (0x1DA84, 0x1DA84), (0x1DA9B, 0x1DA9F),
         (0x1DAA1, 0x1DAAF), (0x1E000, 0x1E006), (0x1E008, 0x1E018), (0x1E01B, 0x1E021)]
     else if cp < 0x110000 then
        [(0x1E023, 0x1E024), (0x1E026, 0x1E02A), (0x1E130, 0x1E13D), (0x1E2AE, 0x1E2AE),
         (0x1E2EC, 0x1E2EF), (0x1E8D0, 0x1E8D6), (0x1E944, 0x1E94B), (0x1F3FB, 0x1F3FF),
         (0xE0001, 0xE0001), (0xE0020, 0xE007F), (0xE0100, 0xE01EF)]
     else [])"

definition isCased :: "nat \<Rightarrow> bool" where
  "isCased cp = list_ex (\<lambda>(lo, hi). lo \<le> cp \<and> cp \<le> hi) (casedRanges cp)"

definition isCaseIgnorable :: "nat \<Rightarrow> bool" where
  "isCaseIgnorable cp = list_ex (\<lambda>(lo, hi). lo \<le> cp \<and> cp \<le> hi) (caseIgnorableRanges cp)"

text \<open>
  The condition Final_Sigma looks from a capital sigma in both directions past the
  case-ignorable code points: the sigma is final when a cased letter stands before
  it and none after it. \<open>casedBeyondIgnorables\<close> takes the code points of one
  direction, the nearest first; a code point that is case-ignorable is passed also
  when it is cased, as the engine's library (ICU) does it.
\<close>

fun casedBeyondIgnorables :: "nat list \<Rightarrow> bool" where
  "casedBeyondIgnorables [] = False"
| "casedBeyondIgnorables (cp # cps) =
     (if isCaseIgnorable cp then casedBeyondIgnorables cps else isCased cp)"

text \<open>
  The lower-case form of each code point in its context: a capital sigma (U+03A3)
  becomes the final or the plain small sigma, the capital I with dot above (U+0130)
  becomes the two code points U+0069 and U+0307, every other code point takes its
  mapping or stays. \<open>seen\<close> holds the code points already passed, the nearest
  first.
\<close>

fun lowerCodePoints :: "nat list \<Rightarrow> nat list \<Rightarrow> nat list" where
  "lowerCodePoints seen [] = []"
| "lowerCodePoints seen (cp # rest) =
     (if cp = 0x3A3 then
        [if casedBeyondIgnorables seen \<and> \<not> casedBeyondIgnorables rest then 0x3C2 else 0x3C3]
      else if cp = 0x130 then [0x69, 0x307]
      else [simpleLowercase cp]) @
     lowerCodePoints (cp # seen) rest"

definition toLowerCase :: "jsstring \<Rightarrow> jsstring" where
  "toLowerCase s = concat (map utf16 (lowerCodePoints [] (codePoints s)))"

text \<open>
  The class \<^verbatim>\<open>\s\<close> of an ECMAScript regular expression: the white space and the
  line terminators.
\<close>

definition isWhiteSpace :: "jschar \<Rightarrow> bool" where
  "isWhiteSpace c =
     (c = 0x09 \<or> c = 0x0A \<or> c = 0x0B \<or> c = 0x0C \<or> c = 0x0D \<or> c = 0x20 \<or>
      c = 0xA0 \<or> c = 0x1680 \<or> (0x2000 \<le> c \<and> c \<le> 0x200A) \<or>
      c = 0x2028 \<or> c = 0x2029 \<or> c = 0x202F \<or> c = 0x205F \<or> c = 0x3000 \<or>
      c = 0xFEFF)"

text \<open>
  \<^verbatim>\<open>s.replace(/\s+/g, "-")\<close>: the scan goes left to right; where a white-space code
  unit stands, the greedy match takes the whole run and one hyphen replaces it.
\<close>

function replaceWhitespaceRuns :: "jsstring \<Rightarrow> jsstring" where
  "replaceWhitespaceRuns [] = []"
| "replaceWhitespaceRuns (c # cs) =
     (if isWhiteSpace c then hyphen # replaceWhitespaceRuns (dropWhile isWhiteSpace cs)
      else c # replaceWhitespaceRuns cs)"
  by pat_completeness auto
termination
  by (relation "measure length") (auto simp: length_dropWhile_le le_imp_less_Suc)

text \<open>
  \<^verbatim>\<open>s.replace(/"/g, '\\"')\<close>: the replacement text is the two code units backslash
  and double quote.
\<close>

definition escapeQuotes :: "jsstring \<Rightarrow> jsstring" where
  "escapeQuotes s = concat (map (\<lambda>c. if c = dquote then [backslash, dquote] else [c]) s)"

text \<open>
  The slug of \<^verbatim>\<open>answers.agentName.toLowerCase().replace(/\s+/g, "-")\<close>, which the source
  writes out three times.
\<close>

definition agentSlug :: "jsstring \<Rightarrow> jsstring" where
  "agentSlug nm = replaceWhitespaceRuns (toLowerCase nm)"

text \<open>The decimal digits of a natural number.\<close>

function decimalDigits :: "nat \<Rightarrow> jsstring" where
  "decimalDigits n =
     (if n < 10 then [of_nat (48 + n)]
      else decimalDigits (n div 10) @ [of_nat (48 + n mod 10)])"
  by pat_completeness auto
termination
  by (relation "measure id") auto

declare decimalDigits.simps [simp del]

text \<open>
  A number in a template. The template converts chain identifiers: non-negative
  integers that a Number holds exactly, below \<open>2\<^sup>5\<^sup>3\<close>, words of 53 bits
  here. Such an integer is below \<open>10\<^sup>2\<^sup>1\<close>, where the conversion of a Number
  to a string gives the decimal digits.
\<close>

definition numberToString :: "53 word \<Rightarrow> jsstring" where
  "numberToString n = decimalDigits (unat n)"

section \<open>JSON.stringify\<close>

text \<open>
  The values the manifest holds are strings and objects of strings. An object keeps
  its keys in insertion order (none of the keys here is an array index).
\<close>

datatype json = JString jsstring | JObject "(jsstring \<times> json) list"

definition hexDigit :: "nat \<Rightarrow> jschar" where
  "hexDigit d = (if d < 10 then of_nat (48 + d) else of_nat (87 + d))"

definition unicodeEscape :: "jschar \<Rightarrow> jsstring" where
  "unicodeEscape c =
     (let n = unat c
      in [backslash, 0x75, hexDigit (n div 4096 mod 16), hexDigit (n div 256 mod 16),
          hexDigit (n div 16 mod 16), hexDigit (n mod 16)])"

text \<open>
  QuoteJSONString between its quotes: the seven short escapes, a \<^verbatim>\<open>\u\<close> escape for
  the other control characters and for a surrogate without its partner, every other
  code unit as it is.
\<close>

fun quoteJSONBody :: "jsstring \<Rightarrow> jsstring" where
  "quoteJSONBody [] = []"
| "quoteJSONBody (c # cs) =
     (if c = 0x08 then [backslash, 0x62] @ quoteJSONBody cs
      else if c = 0x09 then [backslash, 0x74] @ quoteJSONBody cs
      else if c = 0x0A then [backslash, 0x6E] @ quoteJSONBody cs
      else if c = 0x0C then [backslash, 0x66] @ quoteJSONBody cs
      else if c = 0x0D then [backslash, 0x72] @ quoteJSONBody cs
      else if c = dquote then [backslash, dquote] @ quoteJSONBody cs
      else if c = backslash then [backslash, backslash] @ quoteJSONBody cs
      else if c < 0x20 then unicodeEscape c @ quoteJSONBody cs
      else if isLeadSurrogate c then
        (case cs of
           [] \<Rightarrow> unicodeEscape c
         | d # ds \<Rightarrow>
             if isTrailSurrogate d then c # d # quoteJSONBody ds
             else unicodeEscape c @ quoteJSONBody cs)
      else if isTrailSurrogate c then unicodeEscape c @ quoteJSONBody cs
      else c # quoteJSONBody cs)"

definition quoteJSONString :: "jsstring \<Rightarrow> jsstring" where
  "quoteJSONString s = [dquote] @ quoteJSONBody s @ [dquote]"

text \<open>
  SerializeJSONProperty and SerializeJSONObject with the gap \<open>gap\<close> at the
  indentation \<open>indent\<close>.
\<close>

fun serializeJSON :: "jsstring \<Rightarrow> jsstring \<Rightarrow> json \<Rightarrow> jsstring" where
  "serializeJSON gap indent (JString s) = quoteJSONString s"
| "serializeJSON gap indent (JObject kvs) =
     (let stepback = indent;
          indent' = indent @ gap;
          partial = map (\<lambda>(k, v). quoteJSONString k @ js '':'' @
                      (if gap = [] then [] else js '' '') @ serializeJSON gap indent' v) kvs
      in if partial = [] then js ''{}''
         else if gap = [] then js ''{'' @ join (js '','') partial @ js ''}''
         else js ''{'' @ [LF] @ indent' @ join (js '','' @ [LF] @ indent') partial @
              [LF] @ stepback @ js ''}'')"

text \<open>\<^verbatim>\<open>JSON.stringify(value, null, 2)\<close>: the gap is two spaces.\<close>

definition JSON_stringify2 :: "json \<Rightarrow> jsstring" where
  "JSON_stringify2 v = serializeJSON (js ''  '') [] v"

section \<open>The wizard's answers and the chain configuration\<close>

text \<open>
  \<^verbatim>\<open>WizardAnswers\<close> is declared in \<^verbatim>\<open>src/wizard.ts\<close>; its fields are those
  \<^verbatim>\<open>test-register.ts\<close> fills in. \<^verbatim>\<open>generatedPrivateKey\<close> is optional.
  \<^verbatim>\<open>ChainConfig\<close> is an entry of the table \<^verbatim>\<open>CHAINS\<close> of \<^verbatim>\<open>src/config.ts\<close>; the
  generator reads its four fields and takes the entry as an argument. The field
  \<^verbatim>\<open>chain\<close> of the answers is \<open>chainKey\<close> here and the field \<^verbatim>\<open>name\<close> of the chain is
  \<open>chainName\<close>; a chain identifier is a word of 53 bits.
\<close>

record WizardAnswers =
  projectDir :: jsstring
  agentName :: jsstring
  agentDescription :: jsstring
  agentImage :: jsstring
  features :: "jsstring list"
  a2aStreaming :: bool
  chainKey :: jsstring
  trustModels :: "jsstring list"
  agentWallet :: jsstring
  generatedPrivateKey :: "jsstring option"

record ChainConfig =
  chainName :: jsstring
  chainId :: "53 word"
  rpcUrl :: jsstring
  scanPath :: jsstring

text \<open>
  Modelled from the spec: \<^verbatim>\<open>hasFeature\<close> of \<^verbatim>\<open>src/wizard.ts\<close>, which is not among
  the sources; the spec calls it the feature-membership predicate over
  \<^verbatim>\<open>answers.features\<close>.
\<close>

definition hasFeature :: "WizardAnswers \<Rightarrow> jsstring \<Rightarrow> bool" where
  "hasFeature answers feature = (feature \<in> set (features answers))"

section \<open>Contract addresses\<close>

record Contracts =
  identityRegistry :: jsstring
  reputationRegistry :: jsstring

definition MONAD_CONTRACTS_mainnet :: Contracts where
  "MONAD_CONTRACTS_mainnet =
     \<lparr> identityRegistry = js ''0x8004A169FB4a3325136EB29fA0ceB6D2e539a432'',
       reputationRegistry = js ''0x8004BAa17C55a88189AE136b182e5fdA19dE9b63'' \<rparr>"

definition MONAD_CONTRACTS_testnet :: Contracts where
  "MONAD_CONTRACTS_testnet =
     \<lparr> identityRegistry = js ''0x8004A818BFB912233c491871b3d84c89A494BD9e'',
       reputationRegistry = js ''0x8004B663056A597Dffe9eCcC1965A193B7388713'' \<rparr>"

definition isMonadChain :: "jsstring \<Rightarrow> bool" where
  "isMonadChain ch = (ch = js ''monad-mainnet'' \<or> ch = js ''monad-testnet'')"

definition getMonadContracts :: "jsstring \<Rightarrow> Contracts" where
  "getMonadContracts ch =
     (if ch = js ''monad-mainnet'' then MONAD_CONTRACTS_mainnet else MONAD_CONTRACTS_testnet)"

section \<open>The package manifest\<close>

text \<open>
  An assignment \<^verbatim>\<open>obj[key] = value\<close> on a record of strings: a key the object has
  keeps its place, a new key goes last.
\<close>

fun setProperty :: "(jsstring \<times> jsstring) list \<Rightarrow> jsstring \<Rightarrow> jsstring \<Rightarrow> (jsstring \<times> jsstring) list" where
  "setProperty [] k v = [(k, v)]"
| "setProperty ((k', v') # kvs) k v =
     (if k' = k then (k, v) # kvs else (k', v') # setProperty kvs k v)"

definition baseScripts :: "(jsstring \<times> jsstring) list" where
  "baseScripts =
     [(js ''build'', js ''tsc''),
      (js ''register'', js ''tsx src/register.ts'')]"

definition baseDependencies :: "(jsstring \<times> jsstring) list" where
  "baseDependencies =
     [(js ''viem'', js ''^2.21.0''),
      (js ''dotenv'', js ''^16.3.1''),
      (js ''openai'', js ''^4.68.0'')]"

definition baseDevDependencies :: "(jsstring \<times> jsstring) list" where
  "baseDevDependencies =
     [(js ''@types/node'', js ''^20.10.0''),
      (js ''tsx'', js ''^4.7.0''),
      (js ''typescript'', js ''^5.3.0'')]"

text \<open>The three records after the two feature checks, a2a before mcp.\<close>

definition packageScripts :: "WizardAnswers \<Rightarrow> (jsstring \<times> jsstring) list" where
  "packageScripts answers =
     (let scripts = baseScripts;
          scripts = (if hasFeature answers (js ''a2a'')
                     then setProperty scripts (js ''start:a2a'') (js ''tsx src/a2a-server.ts'')
                     else scripts);
          scripts = (if hasFeature answers (js ''mcp'')
                     then setProperty scripts (js ''start:mcp'') (js ''tsx src/mcp-server.ts'')
                     else scripts)
      in scripts)"

definition packageDependencies :: "WizardAnswers \<Rightarrow> (jsstring \<times> jsstring) list" where
  "packageDependencies answers =
     (let dependencies = baseDependencies;
          dependencies = (if hasFeature answers (js ''a2a'')
                          then setProperty (setProperty dependencies (js ''express'') (js ''^4.18.2''))
                                 (js ''uuid'') (js ''^9.0.0'')
                          else dependencies);
          dependencies = (if hasFeature answers (js ''mcp'')
                          then setProperty dependencies (js ''@modelcontextprotocol/sdk'') (js ''^1.0.0'')
                          else dependencies)
      in dependencies)"

definition packageDevDependencies :: "WizardAnswers \<Rightarrow> (jsstring \<times> jsstring) list" where
  "packageDevDependencies answers =
     (let devDependencies = baseDevDependencies;
          devDependencies = (if hasFeature answers (js ''a2a'')
                             then setProperty (setProperty devDependencies (js ''@types/express'') (js ''^4.17.21''))
                                    (js ''@types/uuid'') (js ''^9.0.7'')
                             else devDependencies)
      in devDependencies)"

definition stringRecord :: "(jsstring \<times> jsstring) list \<Rightarrow> json" where
  "stringRecord kvs = JObject (map (\<lambda>(k, v). (k, JString v)) kvs)"

definition packageObject :: "WizardAnswers \<Rightarrow> json" where
  "packageObject answers =
     JObject
       [(js ''name'', JString (agentSlug (agentName answers))),
        (js ''version'', JString (js ''1.0.0'')),
        (js ''description'', JString (agentDescription answers)),
        (js ''type'', JString (js ''module'')),
        (js ''scripts'', stringRecord (packageScripts answers)),
        (js ''dependencies'', stringRecord (packageDependencies answers)),
        (js ''devDependencies'', stringRecord (packageDevDependencies answers))]"

definition generateMonadPackageJson :: "WizardAnswers \<Rightarrow> jsstring" where
  "generateMonadPackageJson answers = JSON_stringify2 (packageObject answers)"

section \<open>The environment template\<close>

text \<open>
  \<^verbatim>\<open>answers.generatedPrivateKey || "your_private_key_here"\<close>: the left operand is
  taken when it is truthy; an absent field and the empty string are falsy.
\<close>

definition privateKeyValue :: "WizardAnswers \<Rightarrow> jsstring" where
  "privateKeyValue answers =
     (case generatedPrivateKey answers of
        None \<Rightarrow> js ''your_private_key_here''
      | Some k \<Rightarrow> if k = [] then js ''your_private_key_here'' else k)"

definition generateMonadEnv :: "WizardAnswers \<Rightarrow> ChainConfig \<Rightarrow> jsstring" where
  "generateMonadEnv answers chain =
     lines_text
       [js ''# Required for registration'',
        js ''PRIVATE_KEY='' @ privateKeyValue answers,
        [],
        js ''# RPC URL for '' @ chainName chain,
        js ''RPC_URL='' @ rpcUrl chain,
        [],
        js ''# Pinata JWT for IPFS upload (get from https://pinata.cloud)'',
        js ''PINATA_JWT=your_pinata_jwt_here'',
        [],
        js ''# OpenAI API key for LLM agent'',
        js ''OPENAI_API_KEY=your_openai_api_key_here'']"

section \<open>The registration script\<close>

text \<open>
  The template literal of \<^verbatim>\<open>generateMonadRegisterScript\<close> (lines 126 to 356 of
  \<^verbatim>\<open>monad.ts\<close>), cut into blocks of source lines. The lists hold the text the
  template denotes: an escaped backquote is a backquote there, an escaped dollar
  sign a dollar sign.
\<close>

text \<open>Lines 105 to 109: the entry of the A2A service.\<close>

definition serviceA2A :: \<open>jsstring \<Rightarrow> jsstring\<close> where
  \<open>serviceA2A slug =
     join [LF]
       [js ''    {'',
        js ''      name: "A2A",'',
        js ''      endpoint: "https://'' @ slug @ js ''.example.com/.well-known/agent-card.json",'',
        js ''      version: "0.3.0",'',
        js ''    }'']\<close>

text \<open>Lines 112 to 116: the entry of the MCP service.\<close>

definition serviceMCP :: \<open>jsstring \<Rightarrow> jsstring\<close> where
  \<open>serviceMCP slug =
     join [LF]
       [js ''    {'',
        js ''      name: "MCP", '',
        js ''      endpoint: "https://'' @ slug @ js ''.example.com/mcp",'',
        js ''      version: "2025-06-18",'',
        js ''    }'']\<close>

text \<open>Lines 126 to 147: the head comment and the imports.\<close>

definition registerHeaderLines :: \<open>jsstring list\<close> where
  \<open>registerHeaderLines =
     [js ''/**'',
      js '' * ERC-8004 Agent Registration Script for Monad'',
      js '' * '',
      js '' * Direct contract interaction (agent0-sdk doesn't support Monad yet)'',
      js '' * '',
      js '' * Requirements:'',
      js '' * - PRIVATE_KEY in .env (wallet with MON for gas)'',
      js '' * - PINATA_JWT in .env (for IPFS upload)'',
      js '' * - RPC_URL in .env (optional, defaults to public endpoint)'',
      js '' * '',
      js '' * Run with: npm run register'',
      js '' */'',
      [],
      js ''import 'dotenv/config';'',
      js ''import { createWalletClient, createPublicClient, http, parseAbi } from 'viem';'',
      js ''import { privateKeyToAccount } from 'viem/accounts';'',
      js ''import { defineChain } from 'viem';'',
      [],
      js ''// ============================================================================'',
      js ''// Monad Chain Definition'',
      js ''// ============================================================================'',
      []]\<close>

text \<open>Lines 148 to 155: the chain definition.\<close>

definition registerChainLines :: \<open>ChainConfig \<Rightarrow> jsstring list\<close> where
  \<open>registerChainLines chain =
     [js ''const monad'' @ (if chainId chain = 143 then [] else js ''Testnet'') @ js '' = defineChain({'',
      js ''  id: '' @ numberToString (chainId chain) @ js '','',
      js ''  name: '' @ [squote] @ chainName chain @ [squote] @ js '','',
      js ''  nativeCurrency: { name: 'Monad', symbol: 'MON', decimals: 18 },'',
      js ''  rpcUrls: {'',
      js ''    default: { http: ['' @ [squote] @ rpcUrl chain @ [squote] @ js ''] },'',
      js ''  },'',
      js ''});'']\<close>

text \<open>Lines 156 to 172: the registry address and its interface.\<close>

definition registerContractLines :: \<open>Contracts \<Rightarrow> jsstring list\<close> where
  \<open>registerContractLines contracts =
     [[],
      js ''// ============================================================================'',
      js ''// Contract Configuration'',
      js ''// ============================================================================'',
      [],
      js ''const IDENTITY_REGISTRY = '' @ [squote] @ identityRegistry contracts @ [squote] @ js '';'',
      [],
      js ''const IDENTITY_REGISTRY_ABI = parseAbi(['',
      js ''  'function register(string agentURI) external returns (uint256 agentId)','',
      js ''  'function balanceOf(address owner) external view returns (uint256)','',
      js ''  'event Registered(uint256 indexed agentId, string agentURI, address indexed owner)','',
      js '']);'',
      [],
      js ''// ============================================================================'',
      js ''// Agent Configuration'',
      js ''// ============================================================================'',
      []]\<close>

text \<open>Lines 173 to 183: the agent metadata.\<close>

definition registerMetadataLines :: \<open>WizardAnswers \<Rightarrow> jsstring \<Rightarrow> jsstring \<Rightarrow> jsstring list\<close> where
  \<open>registerMetadataLines answers servicesCode trustModelsCode =
     [js ''const AGENT_METADATA = {'',
      js ''  type: "https://eips.ethereum.org/EIPS/eip-8004#registration-v1",'',
      js ''  name: "'' @ escapeQuotes (agentName answers) @ js ''",'',
      js ''  description: "'' @ escapeQuotes (agentDescription answers) @ js ''",'',
      js ''  image: "'' @ agentImage answers @ js ''",'',
      js ''  services: '' @ servicesCode @ js '','',
      js ''  x402Support: false,'',
      js ''  active: true,'',
      js ''  registrations: [],'',
      js ''  supportedTrust: ['' @ trustModelsCode @ js ''],'',
      js ''};'']\<close>

text \<open>Lines 184 to 228: the upload to the pinning service.\<close>

definition registerUploadLines :: \<open>jsstring list\<close> where
  \<open>registerUploadLines =
     [[],
      js ''// ============================================================================'',
      js ''// IPFS Upload via Pinata'',
      js ''// ============================================================================'',
      [],
      js ''async function uploadToIPFS(metadata: object): Promise<string> {'',
      js ''  const pinataJwt = process.env.PINATA_JWT;'',
      js ''  if (!pinataJwt) {'',
      js ''    throw new Error('PINATA_JWT not set in .env. Get one at https://pinata.cloud');'',
      js ''  }'',
      [],
      js ''  console.log('' @ [squote, 0xF8FF, 0x00FC, 0x00EC, 0x00A7] @ js '' Uploading metadata to IPFS...');'',
      [],
      js ''  const response = await fetch('https://api.pinata.cloud/pinning/pinJSONToIPFS', {'',
      js ''    method: 'POST','',
      js ''    headers: {'',
      js ''      'Content-Type': 'application/json','',
      js ''      'Authorization': `Bearer ${pinataJwt}`,'',
      js ''    },'',
      js ''    body: JSON.stringify({'',
      js ''      pinataContent: metadata,'',
      js ''      pinataMetadata: {'',
      js ''        name: `agent-metadata-${Date.now()}.json`,'',
      js ''      },'',
      js ''    }),'',
      js ''  });'',
      [],
      js ''  if (!response.ok) {'',
      js ''    const error = await response.text();'',
      js ''    throw new Error(`Pinata upload failed: ${error}`);'',
      js ''  }'',
      [],
      js ''  const result = await response.json() as { IpfsHash: string };'',
      js ''  const ipfsUri = `ipfs://${result.IpfsHash}`;'',
      js ''  '',
      js ''  console.log(`   IPFS hash: ${result.IpfsHash}`);'',
      js ''  console.log(`   Gateway: https://gateway.pinata.cloud/ipfs/${result.IpfsHash}`);'',
      js ''  '',
      js ''  return ipfsUri;'',
      js ''}'',
      [],
      js ''// ============================================================================'',
      js ''// Main Registration Flow'',
      js ''// ============================================================================'',
      []]\<close>

text \<open>Lines 229 to 293: the environment, the clients, the balance and the upload.\<close>

definition registerMainSetupLines :: \<open>ChainConfig \<Rightarrow> jsstring list\<close> where
  \<open>registerMainSetupLines chain =
     [js ''async function main() {'',
      js ''  // Validate environment'',
      js ''  const privateKey = process.env.PRIVATE_KEY;'',
      js ''  if (!privateKey) {'',
      js ''    throw new Error('PRIVATE_KEY not set in .env');'',
      js ''  }'',
      [],
      js ''  const rpcUrl = process.env.RPC_URL || '' @ [squote] @ rpcUrl chain @ [squote] @ js '';'',
      [],
      js ''  // Initialize clients'',
      js ''  console.log('' @ [squote, 0xF8FF, 0x00FC, 0x00EE, 0x00DF] @ js '' Initializing Monad client...');'',
      js ''  const account = privateKeyToAccount(privateKey as `0x${string}`);'',
      js ''  '',
      js ''  const walletClient = createWalletClient({'',
      js ''    account,'',
      js ''    chain: monad'' @ (if chainId chain = 143 then [] else js ''Testnet'') @ js '','',
      js ''    transport: http(rpcUrl),'',
      js ''  });'',
      [],
      js ''  const publicClient = createPublicClient({'',
      js ''    chain: monad'' @ (if chainId chain = 143 then [] else js ''Testnet'') @ js '','',
      js ''    transport: http(rpcUrl),'',
      js ''  });'',
      [],
      js ''  console.log(`   Wallet: ${account.address}`);'',
      [],
      js ''  // Check balance'',
      js ''  const balance = await publicClient.getBalance({ address: account.address });'',
      js ''  console.log(`   Balance: ${Number(balance) / 1e18} MON`);'',
      js ''  '',
      js ''  if (balance === 0n) {'',
      js ''    throw new Error('Wallet has no MON. Fund it first: https://faucet.monad.xyz/');'',
      js ''  }'',
      [],
      js ''  // Check if wallet already has agents registered'',
      js ''  const agentCount = await publicClient.readContract({'',
      js ''    address: IDENTITY_REGISTRY,'',
      js ''    abi: IDENTITY_REGISTRY_ABI,'',
      js ''    functionName: 'balanceOf','',
      js ''    args: [account.address],'',
      js ''  });'',
      [],
      js ''  if (agentCount > 0n) {'',
      js ''    console.log('' @ [squote, squote] @ js '');'',
      js ''    console.log(`'' @ [0x201A, 0x00F6, 0x2020, 0x00D4, 0x220F, 0x00E8] @ js ''  This wallet already owns ${agentCount} agent(s).`);'',
      js ''    console.log('   Running register again will create a NEW agent.');'',
      js ''    console.log('   Press Ctrl+C to cancel, or wait 5 seconds to continue...');'',
      js ''    await new Promise(resolve => setTimeout(resolve, 5000));'',
      js ''  }'',
      [],
      js ''  console.log('' @ [squote, squote] @ js '');'',
      js ''  console.log('' @ [squote, 0xF8FF, 0x00FC, 0x00EC, 0x00F9] @ js '' Agent metadata:');'',
      js ''  console.log(`   Name: ${AGENT_METADATA.name}`);'',
      js ''  console.log(`   Description: ${AGENT_METADATA.description}`);'',
      js ''  console.log('' @ [squote, squote] @ js '');'',
      [],
      js ''  // Upload to IPFS'',
      js ''  const agentURI = await uploadToIPFS(AGENT_METADATA);'',
      js ''  console.log('' @ [squote, squote] @ js '');'',
      [],
      js ''  // Register on-chain'',
      js ''  console.log('' @ [squote, 0x201A, 0x00F5, 0x00EC, 0x00D4, 0x220F, 0x00E8] @ js ''  Registering agent on '' @ chainName chain @ js ''...');'',
      js ''  console.log(`   Registry: ${IDENTITY_REGISTRY}`);'',
      js ''  console.log(`   Agent URI: ${agentURI}`);'',
      []]\<close>

text \<open>Lines 294 to 303: the gas estimate.\<close>

definition registerEstimateGasLines :: \<open>jsstring list\<close> where
  \<open>registerEstimateGasLines =
     [js ''  // Estimate gas first'',
      js ''  const gasEstimate = await publicClient.estimateContractGas({'',
      js ''    address: IDENTITY_REGISTRY,'',
      js ''    abi: IDENTITY_REGISTRY_ABI,'',
      js ''    functionName: 'register','',
      js ''    args: [agentURI],'',
      js ''    account: account.address,'',
      js ''  });'',
      [],
      js ''  console.log(`   Estimated gas: ${gasEstimate}`);'']\<close>

text \<open>Lines 304 to 316: the transaction.\<close>

definition registerSendLines :: \<open>jsstring list\<close> where
  \<open>registerSendLines =
     [[],
      js ''  // Send transaction with buffer'',
      js ''  const hash = await walletClient.writeContract({'',
      js ''    address: IDENTITY_REGISTRY,'',
      js ''    abi: IDENTITY_REGISTRY_ABI,'',
      js ''    functionName: 'register','',
      js ''    args: [agentURI],'',
      js ''    gas: gasEstimate * 120n / 100n, // 20% buffer'',
      js ''  });'',
      [],
      js ''  console.log(`   Tx hash: ${hash}`);'',
      js ''  console.log('   Waiting for confirmation...');'',
      []]\<close>

text \<open>Lines 317 to 325: the receipt.\<close>

definition registerReceiptLines :: \<open>jsstring list\<close> where
  \<open>registerReceiptLines =
     [js ''  // Wait for receipt'',
      js ''  const receipt = await publicClient.waitForTransactionReceipt({ hash });'',
      js ''  '',
      js ''  if (receipt.status === 'reverted') {'',
      js ''    throw new Error('Transaction reverted');'',
      js ''  }'',
      [],
      js ''  console.log(`   Confirmed in block ${receipt.blockNumber}`);'',
      []]\<close>

text \<open>Lines 326 to 336: the agent identifier.\<close>

definition registerAgentIdLines :: \<open>jsstring list\<close> where
  \<open>registerAgentIdLines =
     [js ''  // Parse agentId from Transfer event (ERC-721 mint)'',
      js ''  // Transfer(address indexed from, address indexed to, uint256 indexed tokenId)'',
      js ''  // tokenId = agentId, located in topics[3]'',
      js ''  const TRANSFER_SIGNATURE = '0xddf252ad1be2c89b69c2b068fc378daa952ba7f163c4a11628f55a4df523b3ef';'',
      js ''  '',
      js ''  let agentId = 'unknown';'',
      js ''  const transferLog = receipt.logs.find(log => log.topics[0] === TRANSFER_SIGNATURE);'',
      js ''  if (transferLog && transferLog.topics[3]) {'',
      js ''    agentId = BigInt(transferLog.topics[3]).toString();'',
      js ''  }'',
      []]\<close>

text \<open>Lines 337 to 355: the summary and the failure handler.\<close>

definition registerSummaryLines :: \<open>ChainConfig \<Rightarrow> jsstring list\<close> where
  \<open>registerSummaryLines chain =
     [js ''  console.log('' @ [squote, squote] @ js '');'',
      js ''  console.log('' @ [squote, 0x201A, 0x00FA, 0x00D6] @ js '' Agent registered successfully!');'',
      js ''  console.log('' @ [squote, squote] @ js '');'',
      js ''  console.log('' @ [squote, 0xF8FF, 0x00FC, 0x00DC, 0x00EE] @ js '' Agent ID:', agentId);'',
      js ''  console.log('' @ [squote, 0xF8FF, 0x00FC, 0x00EB, 0x00F5] @ js '' Owner:', account.address);'',
      js ''  console.log('' @ [squote, squote] @ js '');'',
      js ''  console.log('' @ [squote, 0xF8FF, 0x00FC, 0x00E5, 0x00EA] @ js '' View on 8004scan:');'',
      js ''  console.log(`   https://www.8004scan.io/agents/'' @ scanPath chain @ js ''/${agentId}`);'',
      js ''  console.log('' @ [squote, squote] @ js '');'',
      js ''  console.log('' @ [squote, 0xF8FF, 0x00FC, 0x00EC, 0x00E3] @ js '' Next steps:');'',
      js ''  console.log('   1. Update endpoint URLs in this file with your production domain');'',
      js ''  console.log('   2. Run `npm run start:a2a` to start your A2A server');'',
      js ''  console.log('   3. Deploy your agent to a public URL');'',
      js ''}'',
      [],
      js ''main().catch((error) => {'',
      js ''  console.error('' @ [squote, 0x201A, 0x00F9, 0x00E5] @ js '' Registration failed:', error.message || error);'',
      js ''  process.exit(1);'',
      js ''});'']\<close>

text \<open>
  Lines 96 to 124 and the \<^verbatim>\<open>return\<close>: the contracts, the slug, the services an
  enabled feature pushes, the code of the services array and of the trust models.
\<close>

definition servicesArray :: \<open>WizardAnswers \<Rightarrow> jsstring list\<close> where
  \<open>servicesArray answers =
     (let slug = agentSlug (agentName answers);
          hasA2A = hasFeature answers (js ''a2a'');
          hasMCP = hasFeature answers (js ''mcp'');
          services = [];
          services = (if hasA2A then services @ [serviceA2A slug] else services);
          services = (if hasMCP then services @ [serviceMCP slug] else services)
      in services)\<close>

definition servicesCodeOf :: \<open>jsstring list \<Rightarrow> jsstring\<close> where
  \<open>servicesCodeOf services =
     (if length services > 0
      then js ''['' @ [LF] @ join (js '','' @ [LF]) services @ [LF] @ js ''  ]''
      else js ''[]'')\<close>

definition trustModelsCodeOf :: \<open>jsstring list \<Rightarrow> jsstring\<close> where
  \<open>trustModelsCodeOf ts = join (js '', '') (map (\<lambda>t. [dquote] @ t @ [dquote]) ts)\<close>

definition generateMonadRegisterScript :: \<open>WizardAnswers \<Rightarrow> ChainConfig \<Rightarrow> jsstring\<close> where
  \<open>generateMonadRegisterScript answers chain =
     (let contracts = getMonadContracts (chainKey answers);
          servicesCode = servicesCodeOf (servicesArray answers);
          trustModelsCode = trustModelsCodeOf (trustModels answers)
      in lines_text
           (registerHeaderLines @
            registerChainLines chain @
            registerContractLines contracts @
            registerMetadataLines answers servicesCode trustModelsCode @
            registerUploadLines @
            registerMainSetupLines chain @
            registerEstimateGasLines @
            registerSendLines @
            registerReceiptLines @
            registerAgentIdLines @
            registerSummaryLines chain))\<close>

section \<open>The README\<close>

text \<open>
  The template literal of \<^verbatim>\<open>generateMonadReadme\<close> (lines 364 to 444 of
  \<^verbatim>\<open>monad.ts\<close>).
\<close>













section \<open>Notions of the specification\<close>

text \<open>The Latin capital letters A to Z.\<close>

definition isUpperAZ :: "jschar \<Rightarrow> bool" where
  "isUpperAZ c = (0x41 \<le> c \<and> c \<le> 0x5A)"

text \<open>
  The upper-case letters: the code points of the general category Lu of the Unicode
  Character Database (version 14.0), as ranges \<open>(lo, hi, step)\<close> cut into
  parts like the mappings.
\<close>

definition uppercaseLetterRanges :: "nat \<Rightarrow> (nat \<times> nat \<times> nat) list" where
  "uppercaseLetterRanges cp =
    (if cp < 0x01A2 then
        [(0x0041, 0x005A, 1), (0x00C0, 0x00D6, 1), (0x00D8, 0x00DE, 1), (0x0100, 0x0136, 2),
         (0x0139, 0x0147, 2), (0x014A, 0x0178, 2), (0x0179, 0x017D, 2), (0x0181, 0x0182, 1),
         (0x0184, 0x0186, 2), (0x0187, 0x0189, 2), (0x018A, 0x018B, 1), (0x018E, 0x0191, 1),
         (0x0193, 0x0194, 1), (0x0196, 0x0198, 1), (0x019C, 0x019D, 1), (0x019F, 0x01A0, 1)]
     else if cp < 0x01FA then
        [(0x01A2, 0x01A6, 2), (0x01A7, 0x01A9, 2), (0x01AC, 0x01AE, 2), (0x01AF, 0x01B1, 2),
         (0x01B2, 0x01B3, 1), (0x01B5, 0x01B7, 2), (0x01B8, 0x01B8, 1), (0x01BC, 0x01BC, 1),
         (0x01C4, 0x01C4, 1), (0x01C7, 0x01C7, 1), (0x01CA, 0x01CA, 1), (0x01CD, 0x01DB, 2),
         (0x01DE, 0x01EE, 2), (0x01F1, 0x01F1, 1), (0x01F4, 0x01F6, 2), (0x01F7, 0x01F8, 1)]
     else if cp < 0x03D2 then
        [(0x01FA, 0x0232, 2), (0x023A, 0x023B, 1), (0x023D, 0x023E, 1), (0x0241, 0x0243, 2),
         (0x0244, 0x0246, 1), (0x0248, 0x024E, 2), (0x0370, 0x0372, 2), (0x0376, 0x0376, 1),
         (0x037F, 0x037F, 1), (0x0386, 0x0388, 2), (0x0389, 0x038A, 1), (0x038C, 0x038E, 2),
         (0x038F, 0x0391, 2), (0x0392, 0x03A1, 1), (0x03A3, 0x03AB, 1), (0x03CF, 0x03CF, 1)]
     else if cp < 0x1CBD then
        [(0x03D2, 0x03D4, 1), (0x03D8, 0x03EE, 2), (0x03F4, 0x03F4, 1), (0x03F7, 0x03F9, 2),
         (0x03FA, 0x03FA, 1), (0x03FD, 0x042F, 1), (0x0460, 0x0480, 2), (0x048A, 0x04C0, 2),
         (0x04C1, 0x04CD, 2), (0x04D0, 0x052E, 2), (0x0531, 0x0556, 1), (0x10A0, 0x10C5, 1),
         (0x10C7, 0x10C7, 1), (0x10CD, 0x10CD, 1), (0x13A0, 0x13F5, 1), (0x1C90, 0x1CBA, 1)]
     else if cp < 0x2107 then
        [(0x1CBD, 0x1CBF, 1), (0x1E00, 0x1E94, 2), (0x1E9E, 0x1EFE, 2), (0x1F08, 0x1F0F, 1),
         (0x1F18, 0x1F1D, 1), (0x1F28, 0x1F2F, 1), (0x1F38, 0x1F3F, 1), (0x1F48, 0x1F4D, 1),
         (0x1F59, 0x1F5F, 2), (0x1F68, 0x1F6F, 1), (0x1FB8, 0x1FBB, 1), (0x1FC8, 0x1FCB, 1),
         (0x1FD8, 0x1FDB, 1), (0x1FE8, 0x1FEC, 1), (0x1FF8, 0x1FFB, 1), (0x2102, 0x2102, 1)]
     else if cp < 0x2C72 then
        [(0x2107, 0x2107, 1), (0x210B, 0x210D, 1), (0x2110, 0x2112, 1), (0x2115, 0x2115, 1),
         (0x2119, 0x211D, 1), (0x2124, 0x212A, 2), (0x212B, 0x212D, 1), (0x2130, 0x2133, 1),
         (0x213E, 0x213F, 1), (0x2145, 0x2145, 1), (0x2183, 0x2183, 1), (0x2C00, 0x2C2F, 1),
         (0x2C60, 0x2C62, 2), (0x2C63, 0x2C64, 1), (0x2C67, 0x2C6D, 2), (0x2C6E, 0x2C70, 1)]
     else if cp < 0xA7B0 then
        [(0x2C72, 0x2C72, 1), (0x2C75, 0x2C75, 1), (0x2C7E, 0x2C80, 1), (0x2C82, 0x2CE2, 2),
         (0x2CEB, 0x2CED, 2), (0x2CF2, 0x2CF2, 1), (0xA640, 0xA66C, 2), (0xA680, 0xA69A, 2),
         (0xA722, 0xA72E, 2), (0xA732, 0xA76E, 2), (0xA779, 0xA77D, 2), (0xA77E, 0xA786, 2),
         (0xA78B, 0xA78D, 2), (0xA790, 0xA792, 2), (0xA796, 0xA7AA, 2), (0xA7AB, 0xA7AE, 1)]
     else if cp < 0x16E40 then
        [(0xA7B0, 0xA7B4, 1), (0xA7B6, 0xA7C4, 2), (0xA7C5, 0xA7C7, 1), (0xA7C9, 0xA7C9, 1),
         (0xA7D0, 0xA7D0, 1), (0xA7D6, 0xA7D8, 2), (0xA7F5, 0xA7F5, 1), (0xFF21, 0xFF3A, 1),
         (0x10400, 0x10427, 1), (0x104B0, 0x104D3, 1), (0x10570, 0x1057A, 1),
         (0x1057C, 0x1058A, 1), (0x1058C, 0x10592, 1), (0x10594, 0x10595, 1),
         (0x10C80, 0x10CB2, 1), (0x118A0, 0x118BF, 1)]
     else if cp < 0x1D53B then
        [(0x16E40, 0x16E5F, 1), (0x1D400, 0x1D419, 1), (0x1D434, 0x1D44D, 1),
         (0x1D468, 0x1D481, 1), (0x1D49C, 0x1D49E, 2), (0x1D49F, 0x1D49F, 1),
         (0x1D4A2, 0x1D4A2, 1), (0x1D4A5, 0x1D4A6, 1), (0x1D4A9, 0x1D4AC, 1),
         (0x1D4AE, 0x1D4B5, 1), (0x1D4D0, 0x1D4E9, 1), (0x1D504, 0x1D505, 1),
         (0x1D507, 0x1D50A, 1), (0x1D50D, 0x1D514, 1), (0x1D516, 0x1D51C, 1),
         (0x1D538, 0x1D539, 1)]
     else if cp < 0x1E900 then
        [(0x1D53B, 0x1D53E, 1), (0x1D540, 0x1D544, 1), (0x1D546, 0x1D546, 1),
         (0x1D54A, 0x1D550, 1), (0x1D56C, 0x1D585, 1), (0x1D5A0, 0x1D5B9, 1),
         (0x1D5D4, 0x1D5ED, 1), (0x1D608, 0x1D621, 1), (0x1D63C, 0x1D655, 1),
         (0x1D670, 0x1D689, 1), (0x1D6A8, 0x1D6C0, 1), (0x1D6E2, 0x1D6FA, 1),
         (0x1D71C, 0x1D734, 1), (0x1D756, 0x1D76E, 1), (0x1D790, 0x1D7A8, 1),
         (0x1D7CA, 0x1D7CA, 1)]
     else if cp < 0x110000 then
        [(0x1E900, 0x1E921, 1)]
     else [])"

definition isUppercaseLetter :: "nat \<Rightarrow> bool" where
  "isUppercaseLetter cp =
     list_ex (\<lambda>(lo, hi, step). lo \<le> cp \<and> cp \<le> hi \<and> (cp - lo) mod step = 0)
       (uppercaseLetterRanges cp)"





text \<open>
  The spec describes the slug as the name with every maximal run of white space
  replaced by a single hyphen. This definition follows those words, not the regular
  expression of the source: \<open>runs P xs\<close> cuts \<open>xs\<close> into its maximal runs of
  elements on which \<open>P\<close> has the same value, each run with that value.
\<close>

fun runs :: "('a \<Rightarrow> bool) \<Rightarrow> 'a list \<Rightarrow> (bool \<times> 'a list) list" where
  "runs P [] = []"
| "runs P (x # xs) =
     (case runs P xs of
        [] \<Rightarrow> [(P x, [x])]
      | (b, r) # rs \<Rightarrow> if b = P x then (b, x # r) # rs else (P x, [x]) # (b, r) # rs)"

definition hyphenateRuns :: "jsstring \<Rightarrow> jsstring" where
  "hyphenateRuns s = concat (map (\<lambda>(b, r). if b then [hyphen] else r) (runs isWhiteSpace s))"

text \<open>
  The text of a record of strings that has an entry, as the manifest shows it one
  level deep: an entry on each line, indented by four spaces.
\<close>

definition recordText :: "(jsstring \<times> jsstring) list \<Rightarrow> jsstring" where
  "recordText kvs =
     js ''{'' @ [LF] @ js ''    '' @
     join (js '','' @ [LF] @ js ''    '')
       (map (\<lambda>(k, v). quoteJSONString k @ js '': '' @ quoteJSONString v) kvs) @
     [LF] @ js ''  }''"


text \<open>The code units QuoteJSONString leaves as they are.\<close>

definition plainUnit :: "jschar \<Rightarrow> bool" where
  "plainUnit c = (0x20 \<le> c \<and> c \<noteq> dquote \<and> c \<noteq> backslash \<and> c < 0xD800)"

text \<open>The split of a text at its line feeds, as \<^verbatim>\<open>split("\n")\<close> gives it.\<close>

fun splitLF :: "jsstring \<Rightarrow> jsstring list" where
  "splitLF [] = [[]]"
| "splitLF (c # cs) =
     (if c = LF then [] # splitLF cs
      else (case splitLF cs of l # ls \<Rightarrow> (c # l) # ls | [] \<Rightarrow> [[c]]))"

section \<open>Notions of the proofs\<close>

text \<open>
  The parts of the table of mappings as ranges of code points, and the check of an
  entry against the table: the entry lies outside the surrogates, its targets are
  code points from U+0061 on that lie outside the surrogates and in one part of the
  table, and no target is the source of an entry of that part.
\<close>

definition lowercaseBlocks :: "(nat \<times> nat) list" where
  "lowercaseBlocks =
     [(0x0000, 0x0186), (0x0186, 0x0198), (0x0198, 0x01B3), (0x01B3, 0x01F2), (0x01F2, 0x0244),
      (0x0244, 0x03CF), (0x03CF, 0x04C1), (0x04C1, 0x1EA0), (0x1EA0, 0x1FBA), (0x1FBA, 0x2126),
      (0x2126, 0x2C67), (0x2C67, 0xA680), (0xA680, 0xA7AC), (0xA7AC, 0xA7D0),
      (0xA7D0, 0x16E40), (0x16E40, 0x110000)]"

definition targetsApart :: "nat \<times> nat \<times> nat \<times> nat \<Rightarrow> nat \<times> nat \<times> nat \<times> nat \<Rightarrow> bool" where
  "targetsApart e e' =
     (case e of (lo, hi, step, to) \<Rightarrow> case e' of (lo', hi', step', to') \<Rightarrow>
        to + (hi - lo) < lo' \<or> hi' < to \<or>
        (step' = 2 \<and> (step = 2 \<or> lo = hi) \<and> odd (to + lo')))"

definition entryChecked :: "nat \<times> nat \<times> nat \<times> nat \<Rightarrow> bool" where
  "entryChecked e =
     (case e of (lo, hi, step, to) \<Rightarrow>
        lo \<le> hi \<and> (hi < 0xD800 \<or> 0xDFFF < lo) \<and> 0x61 \<le> to \<and>
        to + (hi - lo) < 0x110000 \<and> (to + (hi - lo) < 0xD800 \<or> 0xDFFF < to) \<and>
        list_ex (\<lambda>(a, b). if a \<le> to \<and> to + (hi - lo) < b
                          then list_all (targetsApart e) (lowercaseMappings a) else False)
          lowercaseBlocks)"

text \<open>
  The surrogates as code points, and the lists of code points in which no lead
  surrogate stands before a trail surrogate: the lists that \<open>codePoints\<close>
  gives.
\<close>

definition leadPoint :: "nat \<Rightarrow> bool" where
  "leadPoint cp = (0xD800 \<le> cp \<and> cp \<le> 0xDBFF)"

definition trailPoint :: "nat \<Rightarrow> bool" where
  "trailPoint cp = (0xDC00 \<le> cp \<and> cp \<le> 0xDFFF)"

fun unpaired :: "nat list \<Rightarrow> bool" where
  "unpaired [] = True"
| "unpaired [c] = True"
| "unpaired (c # d # cs) = (\<not> (leadPoint c \<and> trailPoint d) \<and> unpaired (d # cs))"

section \<open>Sample inputs\<close>

text \<open>
  The answers of the spec's end-to-end scenario and the testnet entry of the chain
  table, for the instances the theorems are tried on.
\<close>

definition demoAnswers :: WizardAnswers where
  "demoAnswers =
     \<lparr> projectDir = js ''demo-agent'',
       agentName = js ''Demo Agent'',
       agentDescription = js ''A demo agent'',
       agentImage = js ''https://example.com/agent.png'',
       features = [js ''a2a''],
       a2aStreaming = False,
       chainKey = js ''monad-testnet'',
       trustModels = [js ''reputation''],
       agentWallet = js ''0x742d35Cc6634C0532925a3b844Bc9e7595f0bEb0'',
       generatedPrivateKey = None \<rparr>"

definition monadTestnet :: ChainConfig where
  "monadTestnet =
     \<lparr> chainName = js ''Monad Testnet'',
       chainId = 10143,
       rpcUrl = js ''https://testnet-rpc.monad.xyz'',
       scanPath = js ''monad-testnet'' \<rparr>"

text \<open>The same answers with a private key: a usual one, the empty one, one of two lines.\<close>

definition keyAnswers :: WizardAnswers where
  "keyAnswers = demoAnswers\<lparr>generatedPrivateKey := Some (js ''0xabc123'')\<rparr>"

definition emptyKeyAnswers :: WizardAnswers where
  "emptyKeyAnswers = demoAnswers\<lparr>generatedPrivateKey := Some []\<rparr>"

definition twoLineKeyAnswers :: WizardAnswers where
  "twoLineKeyAnswers =
     demoAnswers\<lparr>generatedPrivateKey := Some (js ''0xabc123'' @ [LF] @ js ''RPC_URL=http://localhost:8545'')\<rparr>"

text \<open>Answers whose free text holds double quotes, with both features on.\<close>

definition quotedAnswers :: WizardAnswers where
  \<open>quotedAnswers =
     demoAnswers\<lparr>agentName := js ''Demo "Q" Agent'',
       agentDescription := js ''Says "hi"'',
       agentImage := js ''https://example.com/a"b.png'',
       features := [js ''mcp'', js ''a2a''],
       trustModels := [js ''reputation'', js ''crypto"economic'']\<rparr>\<close>

text \<open>
  Answers whose name has letters outside ASCII: a capital E with acute, the letters
  \<open>cole\<close>, a blank, a capital sigma, a capital I with dot above and an X. And
  answers whose name holds the double-struck capital N (U+2115), an upper-case
  letter with no lower-case form, before a blank and the letters \<open>Ab\<close>.
\<close>

definition accentedAnswers :: WizardAnswers where
  \<open>accentedAnswers =
     demoAnswers\<lparr>agentName := [0xC9] @ js ''cole '' @ [0x3A3, 0x130] @ js ''X''\<rparr>\<close>

definition doubleStruckAnswers :: WizardAnswers where
  \<open>doubleStruckAnswers = demoAnswers\<lparr>agentName := [0x2115] @ js '' Ab''\<rparr>\<close>





section \<open>Properties\<close>

subsection \<open>Strings and lines\<close>

lemma js_Nil [simp]: "js [] = []"
  by (simp add: js_def)

lemma js_Cons: "js (c # cs) = of_char c # js cs"
  by (simp add: js_def)

lemma js_eq_Nil [simp]: "js s = [] \<longleftrightarrow> s = []"
  by (simp add: js_def)


lemma of_char_word_inject [simp]: "(of_char c :: jschar) = of_char d \<longleftrightarrow> c = d"
proof
  assume "(of_char c :: jschar) = of_char d"
  then have "(of_nat (of_char c) :: jschar) = of_nat (of_char d)"
    by (simp only: of_nat_of_char)
  then have "unat (of_nat (of_char c) :: jschar) = unat (of_nat (of_char d) :: jschar)"
    by simp
  moreover have "(of_char c :: nat) < 65536" "(of_char d :: nat) < 65536"
    using nat_of_char_less_256 [of c] nat_of_char_less_256 [of d] by linarith+
  ultimately have "(of_char c :: nat) = of_char d"
    by (simp add: unat_of_nat)
  then show "c = d" by simp
qed simp

lemma js_inject [simp]: "js a = js b \<longleftrightarrow> a = b"
  by (simp add: js_def inj_map_eq_map inj_def)

lemma lines_text_Nil [simp]: "lines_text [] = []"
  by (simp add: lines_text_def)

lemma lines_text_Cons [simp]: "lines_text (l # ls) = l @ LF # lines_text ls"
  by (simp add: lines_text_def)

lemma lines_text_append [simp]: "lines_text (ks @ ls) = lines_text ks @ lines_text ls"
  by (simp add: lines_text_def)

lemma LF_js: "LF \<in> set (js s) \<longleftrightarrow> CHR 0x0A \<in> set s"
proof -
  have "inj (of_char :: char \<Rightarrow> jschar)"
    by (simp add: inj_def)
  then have "(of_char (CHR 0x0A) :: jschar) \<in> of_char ` set s \<longleftrightarrow> CHR 0x0A \<in> set s"
    by (rule inj_image_mem_iff)
  then show ?thesis
    by (simp add: js_def LF_def)
qed

lemma prefix_js: "prefix (js a) (js b) \<longleftrightarrow> prefix a b"
proof (induction a arbitrary: b)
  case Nil
  show ?case by simp
next
  case (Cons c cs)
  then show ?case by (cases b) (simp_all add: js_Cons)
qed

lemma splitLF_line: "LF \<notin> set l \<Longrightarrow> splitLF (l @ LF # t) = l # splitLF t"
  by (induction l) auto

lemma splitLF_lines_text: "\<forall>l\<in>set ls. LF \<notin> set l \<Longrightarrow> splitLF (lines_text ls) = ls @ [[]]"
  by (induction ls) (auto simp: splitLF_line)

subsection \<open>The contract addresses\<close>

text \<open>
  C1. \<^verbatim>\<open>getMonadContracts\<close> returns the mainnet pair of \<^verbatim>\<open>MONAD_CONTRACTS\<close> for the
  chain string \<^verbatim>\<open>monad-mainnet\<close> and the testnet pair for every other string, known
  or not; the pair it returns is always one of the two literal pairs.
\<close>

theorem getMonadContracts_tier:
  \<open>(ch = js ''monad-mainnet'' \<longrightarrow>
      getMonadContracts ch =
        \<lparr> identityRegistry = js ''0x8004A169FB4a3325136EB29fA0ceB6D2e539a432'',
          reputationRegistry = js ''0x8004BAa17C55a88189AE136b182e5fdA19dE9b63'' \<rparr>) \<and>
   (ch \<noteq> js ''monad-mainnet'' \<longrightarrow>
      getMonadContracts ch =
        \<lparr> identityRegistry = js ''0x8004A818BFB912233c491871b3d84c89A494BD9e'',
          reputationRegistry = js ''0x8004B663056A597Dffe9eCcC1965A193B7388713'' \<rparr>) \<and>
   getMonadContracts ch \<in> {MONAD_CONTRACTS_mainnet, MONAD_CONTRACTS_testnet}\<close>
  by (simp add: getMonadContracts_def MONAD_CONTRACTS_mainnet_def MONAD_CONTRACTS_testnet_def)

theorem getMonadContracts_tier_witness:
  \<open>getMonadContracts (js ''monad-mainnet'') = MONAD_CONTRACTS_mainnet \<and>
   getMonadContracts (js ''monad-testnet'') = MONAD_CONTRACTS_testnet \<and>
   getMonadContracts (js ''base-sepolia'') = MONAD_CONTRACTS_testnet \<and>
   getMonadContracts [] = MONAD_CONTRACTS_testnet\<close>
  using getMonadContracts_tier [of \<open>js ''monad-mainnet''\<close>]
        getMonadContracts_tier [of \<open>js ''monad-testnet''\<close>]
        getMonadContracts_tier [of \<open>js ''base-sepolia''\<close>]
        getMonadContracts_tier [of \<open>[]\<close>]
  by (simp add: MONAD_CONTRACTS_mainnet_def MONAD_CONTRACTS_testnet_def js_def)

subsection \<open>Lower case\<close>

text \<open>
  The table of mappings: every entry passes the check, so the target of a mapping
  is a code point from U+0061 on, outside the surrogates, that the table maps no
  further.
\<close>

lemma all_checked: "list_all entryChecked (lowercaseMappings cp)"
  by (simp add: lowercaseMappings_def entryChecked_def targetsApart_def lowercaseBlocks_def)

lemma blocks_const:
  "\<forall>(a, b)\<in>set lowercaseBlocks. \<forall>cp. a \<le> cp \<and> cp < b \<longrightarrow> lowercaseMappings cp = lowercaseMappings a"
  by (simp add: lowercaseBlocks_def lowercaseMappings_def)

lemma parity_clash:
  fixes lo :: nat
  assumes "even (cp - lo)" and "even (to + (cp - lo) - lo')" and "odd (to + lo')"
    and "lo' \<le> to + (cp - lo)"
  shows False
proof -
  define d where "d = cp - lo"
  define k where "k = to + d - lo'"
  from assms(4) have "to + d = k + lo'"
    by (simp add: d_def k_def)
  moreover from assms(1,2) have "even d" "even k"
    by (simp_all add: d_def k_def)
  ultimately show False
    using assms(3) by presburger
qed

lemma targetsApart_sound:
  assumes "targetsApart e e'" and "covers e cp" and "covers e' (target e cp)"
  shows False
proof -
  obtain lo hi step to where e: "e = (lo, hi, step, to)" by (cases e)
  obtain lo' hi' step' to' where e': "e' = (lo', hi', step', to')" by (cases e')
  from assms(2) e have c: "lo \<le> cp" "cp \<le> hi" "(cp - lo) mod step = 0"
    by (simp_all add: covers_def)
  from assms(3) e e' have c': "lo' \<le> to + (cp - lo)" "to + (cp - lo) \<le> hi'" "(to + (cp - lo) - lo') mod step' = 0"
    by (simp_all add: covers_def target_def)
  from assms(1) e e' consider "to + (hi - lo) < lo'" | "hi' < to"
    | "step' = 2" "step = 2 \<or> lo = hi" "odd (to + lo')"
    by (auto simp: targetsApart_def)
  then show False
  proof cases
    case 1
    with c(1,2) c'(1) show False by linarith
  next
    case 2
    with c'(2) show False by linarith
  next
    case 3
    from 3(2) c have "even (cp - lo)"
      by (elim disjE) (simp_all add: dvd_eq_mod_eq_0)
    moreover from 3(1) c'(3) have "even (to + (cp - lo) - lo')"
      by (simp add: dvd_eq_mod_eq_0)
    ultimately show False
      using 3(3) c'(1) by (rule parity_clash)
  qed
qed

lemma checked_target:
  assumes "entryChecked e" and "covers e cp"
  shows "find (\<lambda>e'. covers e' (target e cp)) (lowercaseMappings (target e cp)) = None"
proof -
  obtain lo hi step to where e: "e = (lo, hi, step, to)" by (cases e)
  from assms(1) e obtain a b where ab: "(a, b) \<in> set lowercaseBlocks" "a \<le> to" "to + (hi - lo) < b"
    "list_all (targetsApart e) (lowercaseMappings a)"
    by (auto simp: entryChecked_def list_ex_iff split: if_splits)
  from assms(2) e have "a \<le> target e cp" "target e cp < b"
    using ab(2,3) by (auto simp: covers_def target_def)
  with ab(1) blocks_const have "lowercaseMappings (target e cp) = lowercaseMappings a"
    by blast
  moreover have "\<not> covers e' (target e cp)" if "e' \<in> set (lowercaseMappings a)" for e'
  proof
    assume "covers e' (target e cp)"
    moreover from ab(4) that have "targetsApart e e'"
      by (simp add: list_all_iff)
    ultimately show False
      using targetsApart_sound assms(2) by blast
  qed
  ultimately show ?thesis
    by (simp add: find_None_iff)
qed

lemma simpleLowercase_cases:
  obtains (unmapped) "find (\<lambda>e. covers e cp) (lowercaseMappings cp) = None" "simpleLowercase cp = cp"
  | (mapped) e where "entryChecked e" "covers e cp" "simpleLowercase cp = target e cp"
proof (cases "find (\<lambda>e. covers e cp) (lowercaseMappings cp)")
  case None
  then show ?thesis
    using unmapped by (simp add: simpleLowercase_def)
next
  case (Some e)
  then have "e \<in> set (lowercaseMappings cp)" "covers e cp"
    by (auto simp: find_Some_iff)
  moreover from this all_checked [of cp] have "entryChecked e"
    by (simp add: list_all_iff)
  ultimately show ?thesis
    using mapped Some by (simp add: simpleLowercase_def)
qed

lemma simpleLowercase_idem: "simpleLowercase (simpleLowercase cp) = simpleLowercase cp"
proof (cases cp rule: simpleLowercase_cases)
  case unmapped
  then show ?thesis by simp
next
  case (mapped e)
  from checked_target [OF mapped(1,2)] show ?thesis
    unfolding mapped(3) by (simp add: simpleLowercase_def)
qed

lemma simpleLowercase_bound: "cp < 0x110000 \<Longrightarrow> simpleLowercase cp < 0x110000"
proof (cases cp rule: simpleLowercase_cases)
  case unmapped
  then show "cp < 0x110000 \<Longrightarrow> ?thesis" by simp
next
  case (mapped e)
  then show ?thesis
    by (cases e) (auto simp: entryChecked_def covers_def target_def)
qed

lemma simpleLowercase_surrogate:
  "0xD800 \<le> simpleLowercase cp \<Longrightarrow> simpleLowercase cp \<le> 0xDFFF \<Longrightarrow> simpleLowercase cp = cp"
proof (cases cp rule: simpleLowercase_cases)
  case unmapped
  then show ?thesis by simp
next
  case (mapped e)
  assume "0xD800 \<le> simpleLowercase cp" "simpleLowercase cp \<le> 0xDFFF"
  with mapped have False
    by (cases e) (auto simp: entryChecked_def covers_def target_def)
  then show ?thesis ..
qed

lemma simpleLowercase_ascii:
  "cp < 0x80 \<Longrightarrow> simpleLowercase cp = (if 0x41 \<le> cp \<and> cp \<le> 0x5A then cp + 0x20 else cp)"
  by (auto simp: simpleLowercase_def lowercaseMappings_def covers_def target_def)

lemma simpleLowercase_special: "simpleLowercase 0x3A3 = 0x3C3" "simpleLowercase 0x130 = 0x69"
  "simpleLowercase 0x3C2 = 0x3C2" "simpleLowercase 0x3C3 = 0x3C3" "simpleLowercase 0x69 = 0x69"
  "simpleLowercase 0x307 = 0x307" "simpleLowercase 0x2D = 0x2D"
  by (simp_all add: simpleLowercase_def lowercaseMappings_def covers_def target_def)


text \<open>Code units and code points: each way back gives the start.\<close>

lemma unat_unit: "unat (c :: jschar) < 0x10000"
proof -
  have "unat c < 2 ^ LENGTH(16)"
    by (rule unsigned_less)
  then show ?thesis by simp
qed

lemma unat_of_nat_unit: "n < 0x10000 \<Longrightarrow> unat (of_nat n :: jschar) = n"
  by (simp add: unat_of_nat)

lemma lead_unat: "isLeadSurrogate c \<longleftrightarrow> leadPoint (unat c)"
  by (simp add: isLeadSurrogate_def leadPoint_def word_le_nat_alt)

lemma trail_unat: "isTrailSurrogate c \<longleftrightarrow> trailPoint (unat c)"
  by (simp add: isTrailSurrogate_def trailPoint_def word_le_nat_alt)

lemma utf16_unit: "utf16 (unat (c :: jschar)) = [c]"
  using unat_unit [of c] by (simp add: utf16_def)

lemma pair_value:
  assumes "leadPoint h" and "trailPoint l"
  shows "0x10000 \<le> 0x10000 + (h - 0xD800) * 0x400 + (l - 0xDC00)"
    and "0x10000 + (h - 0xD800) * 0x400 + (l - 0xDC00) < 0x110000"
    and "0xD800 + (0x10000 + (h - 0xD800) * 0x400 + (l - 0xDC00) - 0x10000) div 0x400 = h"
    and "0xDC00 + (0x10000 + (h - 0xD800) * 0x400 + (l - 0xDC00) - 0x10000) mod 0x400 = l"
proof -
  define x where "x = h - 0xD800"
  define y where "y = l - 0xDC00"
  from assms have x: "h = 0xD800 + x" "x < 0x400" and y: "l = 0xDC00 + y" "y < 0x400"
    by (auto simp: leadPoint_def trailPoint_def x_def y_def)
  have v: "0x10000 + (h - 0xD800) * 0x400 + (l - 0xDC00) - 0x10000 = x * 0x400 + y"
    by (simp add: x_def y_def)
  show "0x10000 \<le> 0x10000 + (h - 0xD800) * 0x400 + (l - 0xDC00)"
    by simp
  show "0x10000 + (h - 0xD800) * 0x400 + (l - 0xDC00) < 0x110000"
    using x(2) y(2) by (simp add: x_def [symmetric] y_def [symmetric])
  show "0xD800 + (0x10000 + (h - 0xD800) * 0x400 + (l - 0xDC00) - 0x10000) div 0x400 = h"
    unfolding v using x(1) y(2) by simp
  show "0xDC00 + (0x10000 + (h - 0xD800) * 0x400 + (l - 0xDC00) - 0x10000) mod 0x400 = l"
    unfolding v using y by simp
qed

lemma utf16_pair:
  assumes "isLeadSurrogate c" and "isTrailSurrogate d"
  shows "utf16 (0x10000 + (unat c - 0xD800) * 0x400 + (unat d - 0xDC00)) = [c, d]"
proof -
  from assms have l: "leadPoint (unat c)" "trailPoint (unat d)"
    by (simp_all add: lead_unat trail_unat)
  from pair_value(1) [OF l] have "\<not> 0x10000 + (unat c - 0xD800) * 0x400 + (unat d - 0xDC00) < 0x10000"
    by simp
  then show ?thesis
    unfolding utf16_def by (simp only: if_False pair_value(3,4) [OF l]) simp
qed

lemma codePoints_bound: "cp \<in> set (codePoints s) \<Longrightarrow> cp < 0x110000"
proof (induction s rule: codePoints.induct)
  case 1
  then show ?case by simp
next
  case (2 c)
  then show ?case using unat_unit [of c] by simp
next
  case (3 c d cs)
  show ?case
  proof (cases "isLeadSurrogate c \<and> isTrailSurrogate d")
    case True
    then have "leadPoint (unat c)" "trailPoint (unat d)"
      by (simp_all add: lead_unat trail_unat)
    from pair_value(2) [OF this] 3 True show ?thesis
      by auto
  next
    case False
    with 3 show ?thesis using unat_unit [of c] by auto
  qed
qed

lemma utf16_codePoints: "concat (map utf16 (codePoints s)) = s"
  by (induction s rule: codePoints.induct) (simp_all add: utf16_unit utf16_pair)

lemma unpaired_Cons: "\<not> leadPoint c \<Longrightarrow> unpaired (c # cs) = unpaired cs"
  by (cases cs) simp_all

lemma unpaired_Cons_trail: "unpaired (c # cs) \<Longrightarrow> unpaired cs"
  by (cases cs) simp_all

lemma codePoints_unpaired: "unpaired (codePoints s)"
proof (induction s rule: codePoints.induct)
  case 1
  show ?case by simp
next
  case (2 c)
  show ?case by simp
next
  case (3 c d cs)
  show ?case
  proof (cases "isLeadSurrogate c \<and> isTrailSurrogate d")
    case True
    then have "leadPoint (unat c)" "trailPoint (unat d)"
      by (simp_all add: lead_unat trail_unat)
    from pair_value(1) [OF this] have "\<not> leadPoint (0x10000 + (unat c - 0xD800) * 0x400 + (unat d - 0xDC00))"
      by (simp add: leadPoint_def)
    with 3 True show ?thesis
      by (simp add: unpaired_Cons)
  next
    case False
    note F = this
    show ?thesis
    proof (cases cs)
      case Nil
      with F show ?thesis
        by (simp add: lead_unat trail_unat)
    next
      case (Cons e es)
      show ?thesis
      proof (cases "isLeadSurrogate d \<and> isTrailSurrogate e")
        case True
        then have "leadPoint (unat d)" "trailPoint (unat e)"
          by (simp_all add: lead_unat trail_unat)
        from pair_value(2) [OF this] pair_value(1) [OF this]
        have "\<not> trailPoint (0x10000 + (unat d - 0xD800) * 0x400 + (unat e - 0xDC00))"
          by (simp add: trailPoint_def)
        moreover from F have "(isLeadSurrogate c \<and> isTrailSurrogate d) = False"
          by simp
        ultimately show ?thesis
          using 3 True Cons by auto
      next
        case False
        with 3 F Cons show ?thesis
          by (auto simp: lead_unat trail_unat)
      qed
    qed
  qed
qed

lemma utf16_supplementary:
  assumes "\<not> cp < 0x10000" and "cp < 0x110000"
  obtains h l where "utf16 cp = [h, l]" "isLeadSurrogate h" "isTrailSurrogate l"
    "0x10000 + (unat h - 0xD800) * 0x400 + (unat l - 0xDC00) = cp"
proof -
  define u where "u = cp - 0x10000"
  define H where "H = 0xD800 + u div 0x400"
  define L where "L = 0xDC00 + u mod 0x400"
  from assms have u: "cp = 0x10000 + u" "u < 0x100000"
    by (simp_all add: u_def)
  have d: "u div 0x400 < 0x400" "u mod 0x400 < 0x400"
    using u(2) by (simp_all add: less_mult_imp_div_less)
  then have b: "H < 0x10000" "L < 0x10000" "leadPoint H" "trailPoint L"
    by (simp_all add: H_def L_def leadPoint_def trailPoint_def)
  have h: "unat (of_nat H :: jschar) = H"
    using b(1) by (rule unat_of_nat_unit)
  have l: "unat (of_nat L :: jschar) = L"
    using b(2) by (rule unat_of_nat_unit)
  have "utf16 cp = [of_nat H, of_nat L]"
    using assms(1) by (simp add: utf16_def H_def L_def u_def)
  moreover have "isLeadSurrogate (of_nat H)" "isTrailSurrogate (of_nat L)"
    using b(3,4) by (simp_all only: lead_unat trail_unat h l)
  moreover have "0x10000 + (unat (of_nat H :: jschar) - 0xD800) * 0x400 + (unat (of_nat L :: jschar) - 0xDC00) = cp"
    unfolding h l using u(1) by (simp add: H_def L_def)
  ultimately show ?thesis
    using that by blast
qed

lemma codePoints_utf16_Cons:
  assumes "cp < 0x110000" and "unpaired (cp # cps)" and "\<forall>x\<in>set cps. x < 0x110000"
    and "codePoints (concat (map utf16 cps)) = cps"
  shows "codePoints (utf16 cp @ concat (map utf16 cps)) = cp # cps"
proof (cases "cp < 0x10000")
  case False
  from utf16_supplementary [OF False assms(1)] obtain h l where
    hl: "utf16 cp = [h, l]" "isLeadSurrogate h" "isTrailSurrogate l"
      "0x10000 + (unat h - 0xD800) * 0x400 + (unat l - 0xDC00) = cp"
    by blast
  then show ?thesis
    using assms(4) by simp
next
  case True
  then have v: "unat (of_nat cp :: jschar) = cp"
    by (rule unat_of_nat_unit)
  from True have u: "utf16 cp = [of_nat cp]"
    by (simp add: utf16_def)
  show ?thesis
  proof (cases cps)
    case Nil
    with u v show ?thesis by simp
  next
    case (Cons d ds)
    from assms(3) Cons have d: "d < 0x110000" by simp
    obtain y ys where y: "utf16 d @ concat (map utf16 ds) = y # ys"
      by (cases "utf16 d") (auto simp: utf16_def split: if_splits)
    have "\<not> (isLeadSurrogate (of_nat cp) \<and> isTrailSurrogate y)"
    proof
      assume a: "isLeadSurrogate (of_nat cp) \<and> isTrailSurrogate y"
      then have lp: "leadPoint cp"
        by (simp add: lead_unat v)
      show False
      proof (cases "d < 0x10000")
        case True
        then have "unat (of_nat d :: jschar) = d"
          by (rule unat_of_nat_unit)
        moreover from True y have "y = of_nat d"
          by (simp add: utf16_def)
        ultimately have "trailPoint d"
          using a by (simp add: trail_unat)
        with lp assms(2) Cons show False by simp
      next
        case False
        from utf16_supplementary [OF False d] obtain h l where
          "utf16 d = [h, l]" "isLeadSurrogate h"
          by blast
        with y have "isLeadSurrogate y"
          by simp
        with a show False
          by (simp add: lead_unat trail_unat leadPoint_def trailPoint_def)
      qed
    qed
    with u v y assms(4) Cons show ?thesis
      by auto
  qed
qed

lemma codePoints_utf16:
  "unpaired cps \<Longrightarrow> \<forall>x\<in>set cps. x < 0x110000 \<Longrightarrow> codePoints (concat (map utf16 cps)) = cps"
proof (induction cps)
  case Nil
  show ?case by simp
next
  case (Cons cp cps)
  from Cons.prems(1) have "unpaired cps"
    by (rule unpaired_Cons_trail)
  with Cons have "codePoints (concat (map utf16 cps)) = cps"
    by simp
  with Cons.prems show ?case
    using codePoints_utf16_Cons [of cp cps] by simp
qed


lemma codePoints_Cons_plain: "\<not> isLeadSurrogate c \<Longrightarrow> codePoints (c # cs) = unat c # codePoints cs"
  by (cases cs) simp_all

text \<open>The code points that \<open>lowerCodePoints\<close> gives.\<close>

lemma simpleLowercase_into_surrogate:
  assumes "leadPoint (simpleLowercase cp) \<or> trailPoint (simpleLowercase cp)"
  shows "simpleLowercase cp = cp"
  using assms simpleLowercase_surrogate [of cp]
  by (auto simp: leadPoint_def trailPoint_def)

lemma lowerCodePoints_Cons:
  obtains out where "lowerCodePoints seen (cp # rest) = out @ lowerCodePoints (cp # seen) rest"
    "out = [0x3C2] \<or> out = [0x3C3] \<or> out = [0x69, 0x307] \<or> out = [simpleLowercase cp]"
  by auto

lemma stable_specials:
  "simpleLowercase cp = cp \<Longrightarrow> cp \<noteq> 0x3A3 \<and> cp \<noteq> 0x130"
  using simpleLowercase_special(1,2) by auto

lemma lowerCodePoints_stable:
  "x \<in> set (lowerCodePoints seen cps) \<Longrightarrow> simpleLowercase x = x"
proof (induction cps arbitrary: seen)
  case Nil
  then show ?case by simp
next
  case (Cons cp rest)
  obtain out where o: "lowerCodePoints seen (cp # rest) = out @ lowerCodePoints (cp # seen) rest"
    "out = [0x3C2] \<or> out = [0x3C3] \<or> out = [0x69, 0x307] \<or> out = [simpleLowercase cp]"
    by (rule lowerCodePoints_Cons)
  from Cons.prems o(1) consider "x \<in> set out" | "x \<in> set (lowerCodePoints (cp # seen) rest)"
    by auto
  then show ?case
  proof cases
    case 1
    with o(2) show ?thesis
      using simpleLowercase_special simpleLowercase_idem [of cp] by auto
  next
    case 2
    then show ?thesis by (rule Cons.IH)
  qed
qed

lemma lowerCodePoints_bound:
  "\<forall>cp\<in>set cps. cp < 0x110000 \<Longrightarrow> x \<in> set (lowerCodePoints seen cps) \<Longrightarrow> x < 0x110000"
proof (induction cps arbitrary: seen)
  case Nil
  then show ?case by simp
next
  case (Cons cp rest)
  obtain out where o: "lowerCodePoints seen (cp # rest) = out @ lowerCodePoints (cp # seen) rest"
    "out = [0x3C2] \<or> out = [0x3C3] \<or> out = [0x69, 0x307] \<or> out = [simpleLowercase cp]"
    by (rule lowerCodePoints_Cons)
  from Cons.prems o(1) consider "x \<in> set out" | "x \<in> set (lowerCodePoints (cp # seen) rest)"
    by auto
  then show ?case
  proof cases
    case 1
    with o(2) Cons.prems(1) show ?thesis
      using simpleLowercase_bound [of cp] by auto
  next
    case 2
    with Cons show ?thesis by simp
  qed
qed

lemma lowerCodePoints_fixed:
  "\<forall>cp\<in>set cps. simpleLowercase cp = cp \<Longrightarrow> lowerCodePoints seen cps = cps"
proof (induction cps arbitrary: seen)
  case Nil
  show ?case by simp
next
  case (Cons cp rest)
  then have "simpleLowercase cp = cp" by simp
  with stable_specials [of cp] Cons show ?case
    by simp
qed

lemma lowerCodePoints_head_trail:
  assumes "lowerCodePoints seen (d # rest) = y # ys" and "trailPoint y"
  shows "y = d"
proof -
  obtain out where o: "lowerCodePoints seen (d # rest) = out @ lowerCodePoints (d # seen) rest"
    "out = [0x3C2] \<or> out = [0x3C3] \<or> out = [0x69, 0x307] \<or> out = [simpleLowercase d]"
    by (rule lowerCodePoints_Cons)
  with assms(1) have "y = 0x3C2 \<or> y = 0x3C3 \<or> y = 0x69 \<or> y = simpleLowercase d"
    by auto
  with assms(2) have "y = simpleLowercase d"
    by (auto simp: trailPoint_def)
  with assms(2) simpleLowercase_into_surrogate [of d] show ?thesis
    by simp
qed

lemma lowerCodePoints_unpaired:
  "unpaired cps \<Longrightarrow> unpaired (lowerCodePoints seen cps)"
proof (induction cps arbitrary: seen)
  case Nil
  show ?case by simp
next
  case (Cons cp rest)
  from Cons.prems have "unpaired rest"
    by (rule unpaired_Cons_trail)
  then have IH: "unpaired (lowerCodePoints (cp # seen) rest)"
    by (rule Cons.IH)
  obtain out where o: "lowerCodePoints seen (cp # rest) = out @ lowerCodePoints (cp # seen) rest"
    "out = [0x3C2] \<or> out = [0x3C3] \<or> out = [0x69, 0x307] \<or> out = [simpleLowercase cp]"
    by (rule lowerCodePoints_Cons)
  have n: "\<not> leadPoint 0x3C2" "\<not> leadPoint 0x3C3" "\<not> leadPoint 0x69" "\<not> leadPoint 0x307"
    by (simp_all add: leadPoint_def)
  show ?case
  proof (cases "out = [simpleLowercase cp] \<and> leadPoint (simpleLowercase cp)")
    case False
    with o(2) n IH show ?thesis
      unfolding o(1) by (auto simp: unpaired_Cons)
  next
    case True
    with simpleLowercase_into_surrogate [of cp] have s: "simpleLowercase cp = cp" "leadPoint cp"
      by simp_all
    show ?thesis
    proof (cases "lowerCodePoints (cp # seen) rest")
      case Nil
      with True show ?thesis
        unfolding o(1) by simp
    next
      case (Cons y ys)
      then obtain d ds where d: "rest = d # ds"
        by (cases rest) auto
      have "\<not> trailPoint y"
      proof
        assume "trailPoint y"
        with Cons d have "y = d"
          using lowerCodePoints_head_trail by blast
        with \<open>trailPoint y\<close> s(2) Cons.prems d show False
          by simp
      qed
      with IH Cons True s show ?thesis
        unfolding o(1) by simp
    qed
  qed
qed

text \<open>The code points of the lower-cased string are those that the mapping gives.\<close>

lemma codePoints_toLowerCase:
  "codePoints (toLowerCase s) = lowerCodePoints [] (codePoints s)"
  unfolding toLowerCase_def
  by (rule codePoints_utf16)
    (auto intro: lowerCodePoints_unpaired codePoints_unpaired lowerCodePoints_bound codePoints_bound)

text \<open>The code units of the lower-cased string.\<close>

lemma toLowerCase_units:
  assumes "c \<in> set (toLowerCase s)"
  shows "\<not> isUpperAZ c"
proof
  assume up: "isUpperAZ c"
  from assms obtain x where x: "x \<in> set (lowerCodePoints [] (codePoints s))" "c \<in> set (utf16 x)"
    by (auto simp: toLowerCase_def)
  from x(1) have st: "simpleLowercase x = x"
    by (rule lowerCodePoints_stable)
  from x(1) have b: "x < 0x110000"
    using lowerCodePoints_bound [of "codePoints s" x "[]"] codePoints_bound by blast
  show False
  proof (cases "x < 0x10000")
    case True
    then have "unat (of_nat x :: jschar) = x"
      by (rule unat_of_nat_unit)
    moreover from True x(2) have "c = of_nat x"
      by (simp add: utf16_def)
    ultimately have "0x41 \<le> x" "x \<le> 0x5A"
      using up by (simp_all add: isUpperAZ_def word_le_nat_alt)
    with simpleLowercase_ascii [of x] st show False
      by simp
  next
    case False
    from utf16_supplementary [OF False b] obtain h l where
      "utf16 x = [h, l]" "isLeadSurrogate h" "isTrailSurrogate l"
      by blast
    with x(2) up show False
      by (auto simp: isUpperAZ_def lead_unat trail_unat leadPoint_def trailPoint_def word_le_nat_alt)
  qed
qed




text \<open>On ASCII the mapping is the one of the letters A to Z.\<close>

lemma codePoints_ascii: "\<forall>c\<in>set s. c < 0x80 \<Longrightarrow> codePoints s = map unat s"
proof (induction s)
  case Nil
  show ?case by simp
next
  case (Cons c s)
  then have "\<not> isLeadSurrogate c"
    by (auto simp: isLeadSurrogate_def word_le_nat_alt word_less_nat_alt)
  with Cons show ?case
    by (simp add: codePoints_Cons_plain)
qed

lemma lowerCodePoints_ascii:
  "\<forall>cp\<in>set cps. cp < 0x80 \<Longrightarrow> lowerCodePoints seen cps = map simpleLowercase cps"
  by (induction cps arbitrary: seen) auto

lemma toLowerCase_ascii:
  assumes "\<forall>c\<in>set s. c < 0x80"
  shows "toLowerCase s = map (\<lambda>c. if 0x41 \<le> c \<and> c \<le> 0x5A then c + 0x20 else c) s"
proof -
  have u: "utf16 (simpleLowercase (unat c)) = [if 0x41 \<le> c \<and> c \<le> 0x5A then c + 0x20 else c]"
    if "c < 0x80" for c :: jschar
  proof -
    from that have n: "unat c < 0x80"
      by (simp add: word_less_nat_alt)
    show ?thesis
    proof (cases "0x41 \<le> c \<and> c \<le> 0x5A")
      case True
      then have "0x41 \<le> unat c \<and> unat c \<le> 0x5A"
        by (simp add: word_le_nat_alt)
      moreover from this have "unat (c + 0x20) = unat c + 0x20"
        by (simp add: unat_word_ariths)
      ultimately show ?thesis
        using True simpleLowercase_ascii [OF n] utf16_unit [of "c + 0x20"] by simp
    next
      case False
      then have "\<not> (0x41 \<le> unat c \<and> unat c \<le> 0x5A)"
        by (simp add: word_le_nat_alt)
      with False show ?thesis
        using simpleLowercase_ascii [OF n] utf16_unit [of c] by auto
    qed
  qed
  from assms have "\<forall>cp\<in>set (map unat s). cp < 0x80"
    by (auto simp: word_less_nat_alt)
  then have "lowerCodePoints [] (map unat s) = map simpleLowercase (map unat s)"
    by (rule lowerCodePoints_ascii)
  then have "toLowerCase s = concat (map (\<lambda>c. utf16 (simpleLowercase (unat c))) s)"
    using assms by (simp add: toLowerCase_def codePoints_ascii comp_def)
  also from assms have "\<dots> = map (\<lambda>c. if 0x41 \<le> c \<and> c \<le> 0x5A then c + 0x20 else c) s"
    by (induction s) (simp_all add: u)
  finally show ?thesis .
qed

text \<open>The definitions that evaluate \<open>toLowerCase\<close> on a given string.\<close>

lemmas lower_eval = toLowerCase_def isLeadSurrogate_def isTrailSurrogate_def utf16_def
  simpleLowercase_def covers_def target_def lowercaseMappings_def isCased_def isCaseIgnorable_def
  casedRanges_def caseIgnorableRanges_def

lemma toLowerCase_final_sigma:
  "toLowerCase [0x39F, 0x394, 0x39F, 0x3A3] = [0x3BF, 0x3B4, 0x3BF, 0x3C2]"
  "toLowerCase [0x3A3, 0x39F] = [0x3C3, 0x3BF]"
  by (simp_all add: lower_eval)


subsection \<open>The slug\<close>

text \<open>
  \<open>runs\<close> is the cut into maximal runs: the runs put together give the list
  back, no run is empty, \<open>P\<close> has the run's value on all of a run, and two
  neighbours differ in that value.
\<close>

lemma runs_concat: "concat (map snd (runs P xs)) = xs"
  by (induction xs) (auto split: list.splits)

lemma runs_homogeneous: "\<forall>(b, r)\<in>set (runs P xs). r \<noteq> [] \<and> (\<forall>x\<in>set r. P x = b)"
proof (induction xs)
  case Nil
  show ?case by simp
next
  case (Cons a xs)
  show ?case
  proof (cases "runs P xs")
    case Nil
    then show ?thesis by simp
  next
    case (Cons br rs)
    obtain b r where br: "br = (b, r)" by (cases br)
    from Cons.IH Cons br have "r \<noteq> [] \<and> (\<forall>x\<in>set r. P x = b)"
      and "\<forall>(b, r)\<in>set rs. r \<noteq> [] \<and> (\<forall>x\<in>set r. P x = b)"
      by auto
    with Cons br show ?thesis by auto
  qed
qed

lemma runs_maximal: "distinct_adj (map fst (runs P xs))"
  by (induction xs) (auto split: list.splits)

lemma runs_Cons_Cons:
  "runs P (x # y # ys) =
     (case runs P (y # ys) of
        (b, r) # rs \<Rightarrow> if P x = P y then (b, x # r) # rs else (P x, [x]) # (b, r) # rs
      | [] \<Rightarrow> [])"
  by (auto split: list.splits)

lemma runs_flag: "runs P (y # ys) = (b, r) # rs \<Longrightarrow> b = P y"
  by (auto split: list.splits if_splits)

lemma hyphenateRuns_Nil: "hyphenateRuns [] = []"
  by (simp add: hyphenateRuns_def)

lemma hyphenateRuns_Cons:
  "hyphenateRuns (c # cs) =
     (if isWhiteSpace c then
        (case cs of [] \<Rightarrow> [hyphen]
         | d # ds \<Rightarrow> if isWhiteSpace d then hyphenateRuns cs else hyphen # hyphenateRuns cs)
      else c # hyphenateRuns cs)"
proof (cases cs)
  case Nil
  then show ?thesis by (simp add: hyphenateRuns_def)
next
  case (Cons d ds)
  obtain b r rs where r: "runs isWhiteSpace (d # ds) = (b, r) # rs"
    by (cases "runs isWhiteSpace (d # ds)") (auto split: list.splits if_splits)
  from runs_flag [OF r] have b: "b = isWhiteSpace d" .
  show ?thesis
    unfolding Cons hyphenateRuns_def runs_Cons_Cons r using b by simp
qed

lemma replaceWhitespaceRuns_Cons:
  "replaceWhitespaceRuns (c # cs) =
     (if isWhiteSpace c then
        (case cs of [] \<Rightarrow> [hyphen]
         | d # ds \<Rightarrow> if isWhiteSpace d then replaceWhitespaceRuns cs else hyphen # replaceWhitespaceRuns cs)
      else c # replaceWhitespaceRuns cs)"
  by (cases cs) auto

lemma replaceWhitespaceRuns_eq: "replaceWhitespaceRuns s = hyphenateRuns s"
proof (induction s)
  case Nil
  show ?case by (simp add: hyphenateRuns_Nil)
next
  case (Cons c cs)
  show ?case
    unfolding replaceWhitespaceRuns_Cons [of c cs] hyphenateRuns_Cons [of c cs]
    using Cons by (simp split: list.splits)
qed

lemma hyphen_not_ws: "\<not> isWhiteSpace hyphen"
  by (simp add: isWhiteSpace_def hyphen_def)

lemma replaceWhitespaceRuns_no_ws: "c \<in> set (replaceWhitespaceRuns s) \<Longrightarrow> \<not> isWhiteSpace c"
  by (induction s rule: replaceWhitespaceRuns.induct) (auto simp: hyphen_not_ws split: if_splits)

lemma replaceWhitespaceRuns_set: "set (replaceWhitespaceRuns s) \<subseteq> insert hyphen (set s)"
proof (induction s rule: replaceWhitespaceRuns.induct)
  case 1
  show ?case by simp
next
  case (2 c cs)
  show ?case
  proof (cases "isWhiteSpace c")
    case True
    with 2 have "set (replaceWhitespaceRuns (dropWhile isWhiteSpace cs)) \<subseteq> insert hyphen (set (dropWhile isWhiteSpace cs))"
      by simp
    moreover have "set (dropWhile isWhiteSpace cs) \<subseteq> set cs"
      by (rule set_dropWhileD [THEN subsetI]) 
    ultimately show ?thesis using True by auto
  next
    case False
    with 2 show ?thesis by auto
  qed
qed

lemma hyphen_props: "\<not> isWhiteSpace hyphen" "\<not> isLeadSurrogate hyphen" "\<not> isTrailSurrogate hyphen" "unat hyphen = 0x2D"
  by (simp_all add: isWhiteSpace_def hyphen_def isLeadSurrogate_def isTrailSurrogate_def)

lemma ws_not_surrogate: "isWhiteSpace c \<Longrightarrow> \<not> isLeadSurrogate c \<and> \<not> isTrailSurrogate c"
  by (auto simp: isWhiteSpace_def isLeadSurrogate_def isTrailSurrogate_def word_le_nat_alt)

lemma codePoints_dropWhile_ws: "set (codePoints (dropWhile isWhiteSpace cs)) \<subseteq> set (codePoints cs)"
proof (induction cs)
  case Nil
  show ?case by simp
next
  case (Cons c cs)
  show ?case
  proof (cases "isWhiteSpace c")
    case True
    with ws_not_surrogate [of c] have "codePoints (c # cs) = unat c # codePoints cs"
      by (simp add: codePoints_Cons_plain)
    with Cons True show ?thesis by auto
  next
    case False
    then show ?thesis by simp
  qed
qed

lemma replaceWhitespaceRuns_head:
  "replaceWhitespaceRuns (d # ds) = y # ys \<Longrightarrow> isTrailSurrogate y \<Longrightarrow> y = d \<and> ys = replaceWhitespaceRuns ds"
  using hyphen_props by (auto split: if_splits)

lemma codePoints_replaceWhitespaceRuns:
  "set (codePoints (replaceWhitespaceRuns u)) \<subseteq> insert 0x2D (set (codePoints u))"
proof (induction "length u" arbitrary: u rule: less_induct)
  case less
  show ?case
  proof (cases u)
    case Nil
    then show ?thesis by simp
  next
    case (Cons c cs)
    show ?thesis
    proof (cases "isWhiteSpace c")
      case True
      have "length (dropWhile isWhiteSpace cs) < length u"
        using Cons by (simp add: length_dropWhile_le le_imp_less_Suc)
      then have "set (codePoints (replaceWhitespaceRuns (dropWhile isWhiteSpace cs)))
          \<subseteq> insert 0x2D (set (codePoints (dropWhile isWhiteSpace cs)))"
        by (rule less)
      moreover have "codePoints (c # cs) = unat c # codePoints cs"
        using True ws_not_surrogate [of c] by (simp add: codePoints_Cons_plain)
      moreover have "codePoints (replaceWhitespaceRuns (c # cs)) =
          0x2D # codePoints (replaceWhitespaceRuns (dropWhile isWhiteSpace cs))"
        using True hyphen_props by (simp add: codePoints_Cons_plain)
      ultimately show ?thesis
        using codePoints_dropWhile_ws [of cs] Cons by auto
    next
      case False
      note nws = this
      have r: "replaceWhitespaceRuns (c # cs) = c # replaceWhitespaceRuns cs"
        using False by simp
      have IH: "set (codePoints (replaceWhitespaceRuns cs)) \<subseteq> insert 0x2D (set (codePoints cs))"
        using Cons by (intro less) simp
      show ?thesis
      proof (cases "\<exists>d ds. cs = d # ds \<and> isLeadSurrogate c \<and> isTrailSurrogate d")
        case True
        then obtain d ds where d: "cs = d # ds" "isLeadSurrogate c" "isTrailSurrogate d"
          by blast
        from d(3) ws_not_surrogate [of d] have "\<not> isWhiteSpace d"
          by blast
        then have "replaceWhitespaceRuns (c # cs) = c # d # replaceWhitespaceRuns ds"
          using r d(1) by simp
        moreover have "set (codePoints (replaceWhitespaceRuns ds)) \<subseteq> insert 0x2D (set (codePoints ds))"
          using Cons d(1) by (intro less) simp
        ultimately show ?thesis
          using Cons d by auto
      next
        case False
        have "codePoints (c # replaceWhitespaceRuns cs) = unat c # codePoints (replaceWhitespaceRuns cs)"
        proof (cases "replaceWhitespaceRuns cs")
          case Nil
          then show ?thesis by simp
        next
          case (Cons y ys)
          then obtain d ds where d: "cs = d # ds"
            by (cases cs) auto
          have "\<not> (isLeadSurrogate c \<and> isTrailSurrogate y)"
          proof
            assume a: "isLeadSurrogate c \<and> isTrailSurrogate y"
            with Cons d replaceWhitespaceRuns_head [of d ds y ys] have "y = d"
              by simp
            with a d False show False by simp
          qed
          with Cons show ?thesis by auto
        qed
        moreover have "codePoints (c # cs) = unat c # codePoints cs"
          using False by (cases cs) auto
        ultimately show ?thesis
          using IH Cons r by auto
      qed
    qed
  qed
qed


lemma agentSlug_clean: "c \<in> set (agentSlug nm) \<Longrightarrow> \<not> isUpperAZ c \<and> \<not> isWhiteSpace c"
proof -
  assume c: "c \<in> set (agentSlug nm)"
  then have "c = hyphen \<or> c \<in> set (toLowerCase nm)"
    using replaceWhitespaceRuns_set [of "toLowerCase nm"] by (auto simp: agentSlug_def)
  moreover have "\<not> isUpperAZ hyphen"
    by (simp add: isUpperAZ_def hyphen_def)
  ultimately have "\<not> isUpperAZ c"
    using toLowerCase_units by blast
  with c show ?thesis
    by (auto simp: agentSlug_def dest: replaceWhitespaceRuns_no_ws)
qed


lemma agentSlug_codePoints:
  assumes "cp \<in> set (codePoints (agentSlug nm))"
  shows "simpleLowercase cp = cp"
proof -
  from assms codePoints_replaceWhitespaceRuns [of "toLowerCase nm"]
  have "cp = 0x2D \<or> cp \<in> set (codePoints (toLowerCase nm))"
    by (auto simp: agentSlug_def)
  then show ?thesis
    unfolding codePoints_toLowerCase
    using simpleLowercase_special(7) lowerCodePoints_stable by blast
qed

lemma toLowerCase_agentSlug: "toLowerCase (agentSlug nm) = agentSlug nm"
proof -
  have "lowerCodePoints [] (codePoints (agentSlug nm)) = codePoints (agentSlug nm)"
    by (rule lowerCodePoints_fixed) (simp add: agentSlug_codePoints)
  then show ?thesis
    by (simp add: toLowerCase_def utf16_codePoints)
qed

lemma toLowerCase_codePoint:
  assumes "cp < 0x110000" and "simpleLowercase cp = cp"
  shows "toLowerCase (utf16 cp) = utf16 cp"
proof -
  have "codePoints (utf16 cp) = [cp]"
    using codePoints_utf16_Cons [of cp "[]"] assms(1) by simp
  then show ?thesis
    using assms(2) lowerCodePoints_fixed [of "[cp]" "[]"] by (simp add: toLowerCase_def)
qed


subsection \<open>The manifest\<close>

text \<open>
  The three records as lists of entries, and the output of \<^verbatim>\<open>JSON.stringify\<close> as
  text, line by line.
\<close>

lemma quoteJSONBody_plain: "\<forall>c\<in>set s. plainUnit c \<Longrightarrow> quoteJSONBody s = s"
proof (induction s)
  case Nil
  show ?case by simp
next
  case (Cons c cs)
  then have p: "plainUnit c" and IH: "quoteJSONBody cs = cs"
    by simp_all
  from p have "c \<noteq> 0x08" "c \<noteq> 0x09" "c \<noteq> 0x0A" "c \<noteq> 0x0C" "c \<noteq> 0x0D" "\<not> c < 0x20"
    "c \<noteq> dquote" "c \<noteq> backslash" "\<not> isLeadSurrogate c" "\<not> isTrailSurrogate c"
    by (auto simp: plainUnit_def isLeadSurrogate_def isTrailSurrogate_def
        word_le_nat_alt word_less_nat_alt)
  with IH show ?case by simp
qed

lemma quoteJSONString_plain: "\<forall>c\<in>set s. plainUnit c \<Longrightarrow> quoteJSONString s = dquote # s @ [dquote]"
  by (simp add: quoteJSONString_def quoteJSONBody_plain)

lemma setProperty_new: "k \<notin> fst ` set kvs \<Longrightarrow> setProperty kvs k v = kvs @ [(k, v)]"
  by (induction kvs) auto

lemma packageScripts_eq:
  \<open>packageScripts a =
     baseScripts @
     (if hasFeature a (js ''a2a'') then [(js ''start:a2a'', js ''tsx src/a2a-server.ts'')] else []) @
     (if hasFeature a (js ''mcp'') then [(js ''start:mcp'', js ''tsx src/mcp-server.ts'')] else [])\<close>
  by (simp add: packageScripts_def baseScripts_def)

lemma packageDependencies_eq:
  \<open>packageDependencies a =
     baseDependencies @
     (if hasFeature a (js ''a2a'')
      then [(js ''express'', js ''^4.18.2''), (js ''uuid'', js ''^9.0.0'')] else []) @
     (if hasFeature a (js ''mcp'') then [(js ''@modelcontextprotocol/sdk'', js ''^1.0.0'')] else [])\<close>
  by (simp add: packageDependencies_def baseDependencies_def)

lemma packageDevDependencies_eq:
  \<open>packageDevDependencies a =
     baseDevDependencies @
     (if hasFeature a (js ''a2a'')
      then [(js ''@types/express'', js ''^4.17.21''), (js ''@types/uuid'', js ''^9.0.7'')] else [])\<close>
  by (simp add: packageDevDependencies_def baseDevDependencies_def)

lemma distinct_keys:
  "distinct (map fst (packageScripts a))" "distinct (map fst (packageDependencies a))"
  "distinct (map fst (packageDevDependencies a))"
  by (auto simp: packageScripts_eq packageDependencies_eq packageDevDependencies_eq
      baseScripts_def baseDependencies_def baseDevDependencies_def)

lemma serialize_entries:
  "map ((\<lambda>(k, v). quoteJSONString k @ js '':'' @ js '' '' @ serializeJSON gap ind v) \<circ>
        (\<lambda>(k, v). (k, JString v))) kvs =
   map (\<lambda>(k, v). quoteJSONString k @ js '': '' @ quoteJSONString v) kvs"
  by (induction kvs) (auto simp: js_def)

lemma serialize_stringRecord:
  assumes "kvs \<noteq> []"
  shows "serializeJSON (js ''  '') (js ''  '') (stringRecord kvs) = recordText kvs"
proof -
  have g: "js ''  '' \<noteq> []" "js ''  '' @ js ''  '' = js ''    ''" "js ''  '' @ js ''}'' = js ''  }''"
    by (simp_all add: js_def)
  from assms show ?thesis
    by (simp add: stringRecord_def recordText_def Let_def g serialize_entries)
qed

lemma packageScripts_nonempty: "packageScripts a \<noteq> []" "packageDependencies a \<noteq> []" "packageDevDependencies a \<noteq> []"
  by (simp_all add: packageScripts_eq packageDependencies_eq packageDevDependencies_eq
      baseScripts_def baseDependencies_def baseDevDependencies_def)

lemma quote_keys:
  \<open>quoteJSONString (js ''name'') = js ''"name"''\<close>
  \<open>quoteJSONString (js ''version'') = js ''"version"''\<close>
  \<open>quoteJSONString (js ''1.0.0'') = js ''"1.0.0"''\<close>
  \<open>quoteJSONString (js ''description'') = js ''"description"''\<close>
  \<open>quoteJSONString (js ''type'') = js ''"type"''\<close>
  \<open>quoteJSONString (js ''module'') = js ''"module"''\<close>
  \<open>quoteJSONString (js ''scripts'') = js ''"scripts"''\<close>
  \<open>quoteJSONString (js ''dependencies'') = js ''"dependencies"''\<close>
  \<open>quoteJSONString (js ''devDependencies'') = js ''"devDependencies"''\<close>
  by (simp_all add: quoteJSONString_def js_def dquote_def backslash_def isLeadSurrogate_def isTrailSurrogate_def)

lemma generateMonadPackageJson_text:
  \<open>generateMonadPackageJson a =
     lines_text
       [js ''{'',
        js ''  "name": '' @ quoteJSONString (agentSlug (agentName a)) @ js '','',
        js ''  "version": "1.0.0",'',
        js ''  "description": '' @ quoteJSONString (agentDescription a) @ js '','',
        js ''  "type": "module",'',
        js ''  "scripts": '' @ recordText (packageScripts a) @ js '','',
        js ''  "dependencies": '' @ recordText (packageDependencies a) @ js '','',
        js ''  "devDependencies": '' @ recordText (packageDevDependencies a)] @
     js ''}''\<close>
proof -
  have g: "js ''  '' \<noteq> []" "[] @ js ''  '' = js ''  ''"
    by (simp_all add: js_def)
  show ?thesis
    unfolding generateMonadPackageJson_def JSON_stringify2_def packageObject_def
    by (simp add: Let_def g serialize_stringRecord packageScripts_nonempty quote_keys)
      (simp add: js_def)
qed

text \<open>
  C2. With \<^verbatim>\<open>a2a\<close> among the features the manifest has one more script
  (\<^verbatim>\<open>start:a2a\<close>), the dependencies \<^verbatim>\<open>express\<close> and \<^verbatim>\<open>uuid\<close> and the development
  dependencies \<^verbatim>\<open>@types/express\<close> and \<^verbatim>\<open>@types/uuid\<close>; with \<^verbatim>\<open>mcp\<close> it has one more
  script (\<^verbatim>\<open>start:mcp\<close>) and the dependency \<^verbatim>\<open>@modelcontextprotocol/sdk\<close>. The base
  entries stay first and unchanged, the additions of a2a come before those of mcp,
  with neither feature only the base entries stand, no key occurs twice, and the
  output is the text of exactly these entries.
\<close>

theorem manifest_feature_entries:
  \<open>packageScripts a =
     [(js ''build'', js ''tsc''), (js ''register'', js ''tsx src/register.ts'')] @
     (if hasFeature a (js ''a2a'') then [(js ''start:a2a'', js ''tsx src/a2a-server.ts'')] else []) @
     (if hasFeature a (js ''mcp'') then [(js ''start:mcp'', js ''tsx src/mcp-server.ts'')] else []) \<and>
   packageDependencies a =
     [(js ''viem'', js ''^2.21.0''), (js ''dotenv'', js ''^16.3.1''), (js ''openai'', js ''^4.68.0'')] @
     (if hasFeature a (js ''a2a'')
      then [(js ''express'', js ''^4.18.2''), (js ''uuid'', js ''^9.0.0'')] else []) @
     (if hasFeature a (js ''mcp'') then [(js ''@modelcontextprotocol/sdk'', js ''^1.0.0'')] else []) \<and>
   packageDevDependencies a =
     [(js ''@types/node'', js ''^20.10.0''), (js ''tsx'', js ''^4.7.0''),
      (js ''typescript'', js ''^5.3.0'')] @
     (if hasFeature a (js ''a2a'')
      then [(js ''@types/express'', js ''^4.17.21''), (js ''@types/uuid'', js ''^9.0.7'')] else []) \<and>
   distinct (map fst (packageScripts a)) \<and>
   distinct (map fst (packageDependencies a)) \<and>
   distinct (map fst (packageDevDependencies a)) \<and>
   generateMonadPackageJson a =
     lines_text
       [js ''{'',
        js ''  "name": '' @ quoteJSONString (agentSlug (agentName a)) @ js '','',
        js ''  "version": "1.0.0",'',
        js ''  "description": '' @ quoteJSONString (agentDescription a) @ js '','',
        js ''  "type": "module",'',
        js ''  "scripts": '' @ recordText (packageScripts a) @ js '','',
        js ''  "dependencies": '' @ recordText (packageDependencies a) @ js '','',
        js ''  "devDependencies": '' @ recordText (packageDevDependencies a)] @
     js ''}''\<close>
proof -
  have \<open>packageScripts a =
     [(js ''build'', js ''tsc''), (js ''register'', js ''tsx src/register.ts'')] @
     (if hasFeature a (js ''a2a'') then [(js ''start:a2a'', js ''tsx src/a2a-server.ts'')] else []) @
     (if hasFeature a (js ''mcp'') then [(js ''start:mcp'', js ''tsx src/mcp-server.ts'')] else [])\<close>
    unfolding packageScripts_eq baseScripts_def ..
  moreover have \<open>packageDependencies a =
     [(js ''viem'', js ''^2.21.0''), (js ''dotenv'', js ''^16.3.1''), (js ''openai'', js ''^4.68.0'')] @
     (if hasFeature a (js ''a2a'')
      then [(js ''express'', js ''^4.18.2''), (js ''uuid'', js ''^9.0.0'')] else []) @
     (if hasFeature a (js ''mcp'') then [(js ''@modelcontextprotocol/sdk'', js ''^1.0.0'')] else [])\<close>
    unfolding packageDependencies_eq baseDependencies_def ..
  moreover have \<open>packageDevDependencies a =
     [(js ''@types/node'', js ''^20.10.0''), (js ''tsx'', js ''^4.7.0''),
      (js ''typescript'', js ''^5.3.0'')] @
     (if hasFeature a (js ''a2a'')
      then [(js ''@types/express'', js ''^4.17.21''), (js ''@types/uuid'', js ''^9.0.7'')] else [])\<close>
    unfolding packageDevDependencies_eq baseDevDependencies_def ..
  ultimately show ?thesis
    using distinct_keys [of a] generateMonadPackageJson_text [of a] by blast
qed


lemma accented_slug:
  \<open>hyphenateRuns (toLowerCase ([0xC9] @ js ''cole '' @ [0x3A3, 0x130] @ js ''X'')) =
     [0xE9] @ js ''cole-'' @ [0x3C3, 0x69, 0x307] @ js ''x''\<close>
  by (simp add: lower_eval hyphenateRuns_def isWhiteSpace_def hyphen_def js_def)

lemma doubleStruck_slug:
  \<open>agentSlug ([0x2115] @ js '' Ab'') = [0x2115] @ js ''-ab''\<close>
  by (simp add: agentSlug_def lower_eval isWhiteSpace_def hyphen_def js_def)

text \<open>
  C5. The name the manifest carries is the agent name in the lower case that
  \<^verbatim>\<open>toLowerCase\<close> gives, with every maximal run of white space replaced by one
  hyphen; the output gives that name, quoted, as its first entry. The name holds no
  white space and no letter from A to Z, and lower-casing changes neither the name
  nor any code point of it: no character with a lower-case form is left. On a
  string of ASCII the lower case is that of the letters A to Z. This holds for
  every agent name, one of mixed case with white space inside among them.
\<close>

theorem manifest_name_slug:
  \<open>(\<exists>rest. packageObject a =
      JObject ((js ''name'', JString (hyphenateRuns (toLowerCase (agentName a)))) # rest)) \<and>
   (\<exists>rest. generateMonadPackageJson a =
      js ''{'' @ [LF] @ js ''  "name": '' @
      quoteJSONString (hyphenateRuns (toLowerCase (agentName a))) @ rest) \<and>
   (\<forall>c\<in>set (hyphenateRuns (toLowerCase (agentName a))). \<not> isUpperAZ c \<and> \<not> isWhiteSpace c) \<and>
   toLowerCase (hyphenateRuns (toLowerCase (agentName a))) =
     hyphenateRuns (toLowerCase (agentName a)) \<and>
   (\<forall>cp\<in>set (codePoints (hyphenateRuns (toLowerCase (agentName a)))).
      toLowerCase (utf16 cp) = utf16 cp) \<and>
   (\<forall>s. (\<forall>c\<in>set s. c < 0x80) \<longrightarrow>
      toLowerCase s = map (\<lambda>c. if 0x41 \<le> c \<and> c \<le> 0x5A then c + 0x20 else c) s)\<close>
proof -
  have slug: "hyphenateRuns (toLowerCase (agentName a)) = agentSlug (agentName a)"
    by (simp add: agentSlug_def replaceWhitespaceRuns_eq)
  have "\<exists>rest. packageObject a = JObject ((js ''name'', JString (agentSlug (agentName a))) # rest)"
    by (simp add: packageObject_def)
  moreover have \<open>\<exists>rest. generateMonadPackageJson a =
      js ''{'' @ [LF] @ js ''  "name": '' @ quoteJSONString (agentSlug (agentName a)) @ rest\<close>
    unfolding generateMonadPackageJson_text by simp
  moreover have "\<forall>c\<in>set (agentSlug (agentName a)). \<not> isUpperAZ c \<and> \<not> isWhiteSpace c"
    using agentSlug_clean by blast
  moreover have "toLowerCase (agentSlug (agentName a)) = agentSlug (agentName a)"
    by (rule toLowerCase_agentSlug)
  moreover have "\<forall>cp\<in>set (codePoints (agentSlug (agentName a))). toLowerCase (utf16 cp) = utf16 cp"
    using toLowerCase_codePoint agentSlug_codePoints codePoints_bound by blast
  moreover have "\<forall>s. (\<forall>c\<in>set s. c < 0x80) \<longrightarrow>
      toLowerCase s = map (\<lambda>c. if 0x41 \<le> c \<and> c \<le> 0x5A then c + 0x20 else c) s"
    using toLowerCase_ascii by blast
  ultimately show ?thesis
    unfolding slug by (intro conjI)
qed

theorem manifest_name_slug_witness:
  \<open>(\<exists>rest. packageObject accentedAnswers =
      JObject ((js ''name'', JString ([0xE9] @ js ''cole-'' @ [0x3C3, 0x69, 0x307] @ js ''x'')) # rest)) \<and>
   (\<exists>rest. generateMonadPackageJson accentedAnswers =
      js ''{'' @ [LF] @ js ''  "name": '' @
      quoteJSONString ([0xE9] @ js ''cole-'' @ [0x3C3, 0x69, 0x307] @ js ''x'') @ rest) \<and>
   hyphen \<in> set ([0xE9] @ js ''cole-'' @ [0x3C3, 0x69, 0x307] @ js ''x'') \<and>
   \<not> isUpperAZ hyphen \<and> \<not> isWhiteSpace hyphen \<and>
   toLowerCase ([0xE9] @ js ''cole-'' @ [0x3C3, 0x69, 0x307] @ js ''x'') =
     [0xE9] @ js ''cole-'' @ [0x3C3, 0x69, 0x307] @ js ''x'' \<and>
   0x3C3 \<in> set (codePoints ([0xE9] @ js ''cole-'' @ [0x3C3, 0x69, 0x307] @ js ''x'')) \<and>
   toLowerCase (utf16 0x3C3) = utf16 0x3C3 \<and>
   toLowerCase (js ''Demo Agent'') = js ''demo agent''\<close>
proof -
  define name where \<open>name = [0xE9] @ js ''cole-'' @ [0x3C3, 0x69, 0x307] @ js ''x''\<close>
  have \<open>agentName accentedAnswers = [0xC9] @ js ''cole '' @ [0x3A3, 0x130] @ js ''X''\<close>
    by (simp add: accentedAnswers_def)
  then have n: \<open>hyphenateRuns (toLowerCase (agentName accentedAnswers)) = name\<close>
    unfolding name_def by (simp only: accented_slug)
  have h: \<open>hyphen \<in> set name\<close>
    by (simp add: name_def js_def hyphen_def)
  have s: \<open>0x3C3 \<in> set (codePoints name)\<close>
    by (simp add: name_def js_def isLeadSurrogate_def isTrailSurrogate_def)
  have a: \<open>\<forall>c\<in>set (js ''Demo Agent''). c < 0x80\<close>
    by (simp add: js_def)
  have m: \<open>map (\<lambda>c. if 0x41 \<le> c \<and> c \<le> 0x5A then c + 0x20 else c) (js ''Demo Agent'') =
      js ''demo agent''\<close>
    by (simp add: js_def)
  from manifest_name_slug [of accentedAnswers] h s a show ?thesis
    unfolding n m name_def [symmetric] by (simp add: m)
qed

text \<open>
  C5 as the claim words it fails: an upper-case letter that has no lower-case form
  stays in the name. The name of these answers has the capital A, the small b and
  a blank inside; the double-struck capital N (U+2115), an upper-case letter,
  stands in the name the manifest carries.
\<close>

theorem manifest_name_uppercase_counterexample:
  \<open>agentName doubleStruckAnswers = [0x2115] @ js '' Ab'' \<and>
   isUppercaseLetter 0x41 \<and> \<not> isUppercaseLetter 0x62 \<and> isWhiteSpace 0x20 \<and>
   prefix (js ''{'' @ [LF] @ js ''  "name": "'' @ [0x2115] @ js ''-ab",'')
     (generateMonadPackageJson doubleStruckAnswers) \<and>
   codePoints ([0x2115] @ js ''-ab'') = [0x2115, 0x2D, 0x61, 0x62] \<and>
   isUppercaseLetter 0x2115\<close>
proof -
  have n: \<open>agentName doubleStruckAnswers = [0x2115] @ js '' Ab''\<close>
    by (simp add: doubleStruckAnswers_def)
  have u: \<open>isUppercaseLetter 0x41\<close> \<open>\<not> isUppercaseLetter 0x62\<close> \<open>isUppercaseLetter 0x2115\<close>
    by (simp_all add: isUppercaseLetter_def uppercaseLetterRanges_def)
  have w: \<open>isWhiteSpace 0x20\<close>
    by (simp add: isWhiteSpace_def)
  have q: \<open>quoteJSONString ([0x2115] @ js ''-ab'') = [dquote] @ [0x2115] @ js ''-ab'' @ [dquote]\<close>
    by (simp add: quoteJSONString_def js_def dquote_def backslash_def isLeadSurrogate_def
        isTrailSurrogate_def)
  have \<open>js ''  "name": '' @ [dquote] = js ''  "name": "''\<close> \<open>[dquote] @ js '','' = js ''",''\<close>
    by (simp_all add: js_def dquote_def)
  then have p: \<open>prefix (js ''{'' @ [LF] @ js ''  "name": "'' @ [0x2115] @ js ''-ab",'')
     (generateMonadPackageJson doubleStruckAnswers)\<close>
    unfolding generateMonadPackageJson_text n doubleStruck_slug q
    by (simp add: js_def dquote_def)
  have c: \<open>codePoints ([0x2115] @ js ''-ab'') = [0x2115, 0x2D, 0x61, 0x62]\<close>
    by (simp add: js_def isLeadSurrogate_def isTrailSurrogate_def)
  from n u w p c show ?thesis
    by simp
qed

subsection \<open>The registration script\<close>

text \<open>The script as the text of its blocks, and the block of the metadata cut further.\<close>

lemma register_script_blocks:
  "generateMonadRegisterScript a c =
     lines_text (registerHeaderLines @ registerChainLines c @
                 registerContractLines (getMonadContracts (chainKey a))) @
     lines_text (registerMetadataLines a (servicesCodeOf (servicesArray a))
                   (trustModelsCodeOf (trustModels a))) @
     lines_text (registerUploadLines @ registerMainSetupLines c) @
     lines_text (registerEstimateGasLines @ registerSendLines @ registerReceiptLines @
                 registerAgentIdLines) @
     lines_text (registerSummaryLines c)"
  by (simp only: generateMonadRegisterScript_def Let_def lines_text_append append_assoc)









lemma sublist_join: "x \<in> set xs \<Longrightarrow> sublist x (join sep xs)"
proof (induction sep xs rule: join.induct)
  case (3 sep y z zs)
  show ?case
  proof (cases "x = y")
    case True
    then show ?thesis by simp
  next
    case False
    with 3 have "sublist x (join sep (z # zs))"
      by simp
    then obtain p q where "join sep (z # zs) = p @ x @ q"
      by (auto simp: sublist_def)
    then have "join sep (y # z # zs) = (y @ sep @ p) @ x @ q"
      by simp
    then show ?thesis
      unfolding sublist_def by blast
  qed
qed simp_all

lemma sublist_in_context: "sublist x t \<Longrightarrow> sublist x (u @ t @ v)"
proof -
  assume "sublist x t"
  then obtain p q where "t = p @ x @ q"
    by (auto simp: sublist_def)
  then have "u @ t @ v = (u @ p) @ x @ (q @ v)"
    by simp
  then show ?thesis
    unfolding sublist_def by (intro exI)
qed

lemma register_metadata_split_image:
  \<open>lines_text (registerMetadataLines a sc tc) =
     lines_text
       [js ''const AGENT_METADATA = {'',
        js ''  type: "https://eips.ethereum.org/EIPS/eip-8004#registration-v1",'',
        js ''  name: "'' @ escapeQuotes (agentName a) @ js ''",'',
        js ''  description: "'' @ escapeQuotes (agentDescription a) @ js ''",''] @
     lines_text [js ''  image: "'' @ agentImage a @ js ''",''] @
     lines_text
       [js ''  services: '' @ sc @ js '','',
        js ''  x402Support: false,'',
        js ''  active: true,'',
        js ''  registrations: [],''] @
     lines_text [js ''  supportedTrust: ['' @ tc @ js ''],''] @
     lines_text [js ''};'']\<close>
  unfolding registerMetadataLines_def lines_text_append [symmetric] by simp

















text \<open>
  C10. The registration script carries \<^verbatim>\<open>agentImage\<close> and every element of
  \<^verbatim>\<open>trustModels\<close> as they are, between double quotes and with no escaping: a double
  quote in one of them stands in the output as it is.
\<close>

theorem register_script_verbatim_fields:
  \<open>(\<exists>pre mid post.
      generateMonadRegisterScript a c =
        pre @
        lines_text [js ''  image: "'' @ agentImage a @ js ''",''] @
        mid @
        lines_text
          [js ''  supportedTrust: ['' @
           join (js '', '') (map (\<lambda>t. [dquote] @ t @ [dquote]) (trustModels a)) @
           js ''],''] @
        post) \<and>
   (\<forall>t\<in>set (trustModels a). sublist ([dquote] @ t @ [dquote]) (generateMonadRegisterScript a c))\<close>
proof -
  define tc where "tc = join (js '', '') (map (\<lambda>t. [dquote] @ t @ [dquote]) (trustModels a))"
  have tc: "trustModelsCodeOf (trustModels a) = tc"
    by (simp add: tc_def trustModelsCodeOf_def)
  obtain pre mid post where 1:
    \<open>generateMonadRegisterScript a c =
        pre @ lines_text [js ''  image: "'' @ agentImage a @ js ''",''] @ mid @
        lines_text [js ''  supportedTrust: ['' @ tc @ js ''],''] @ post\<close>
  proof -
    have \<open>\<exists>pre mid post. generateMonadRegisterScript a c =
        pre @ lines_text [js ''  image: "'' @ agentImage a @ js ''",''] @ mid @
        lines_text [js ''  supportedTrust: ['' @ tc @ js ''],''] @ post\<close>
      unfolding register_script_blocks register_metadata_split_image tc append_assoc
      by (intro exI) (rule append_assoc [symmetric])
    then show ?thesis
      using that by blast
  qed
  have 2: "sublist ([dquote] @ t @ [dquote]) (generateMonadRegisterScript a c)"
    if "t \<in> set (trustModels a)" for t
  proof -
    from that have "sublist ([dquote] @ t @ [dquote]) tc"
      unfolding tc_def by (intro sublist_join) simp
    moreover have \<open>generateMonadRegisterScript a c =
        (pre @ lines_text [js ''  image: "'' @ agentImage a @ js ''",''] @ mid @
         js ''  supportedTrust: ['') @ tc @ (js ''],'' @ LF # post)\<close>
      unfolding 1 by simp
    ultimately show ?thesis
      by (simp only: sublist_in_context)
  qed
  from 1 have \<open>\<exists>pre mid post. generateMonadRegisterScript a c =
        pre @ lines_text [js ''  image: "'' @ agentImage a @ js ''",''] @ mid @
        lines_text [js ''  supportedTrust: ['' @ tc @ js ''],''] @ post\<close>
    by (intro exI)
  with 2 show ?thesis
    unfolding tc_def by (intro conjI ballI)
qed

theorem register_script_verbatim_fields_witness:
  \<open>(\<exists>pre post.
      generateMonadRegisterScript quotedAnswers monadTestnet =
        pre @ js ''  image: "https://example.com/a"b.png",'' @ post) \<and>
   sublist (js ''"crypto"economic"'') (generateMonadRegisterScript quotedAnswers monadTestnet)\<close>
proof -
  have f: \<open>agentImage quotedAnswers = js ''https://example.com/a"b.png''\<close>
    \<open>trustModels quotedAnswers = [js ''reputation'', js ''crypto"economic'']\<close>
    by (simp_all add: quotedAnswers_def demoAnswers_def)
  have e: \<open>js ''  image: "'' @ js ''https://example.com/a"b.png'' @ js ''",'' =
      js ''  image: "https://example.com/a"b.png",''\<close>
    \<open>[dquote] @ js ''crypto"economic'' @ [dquote] = js ''"crypto"economic"''\<close>
    by (simp_all add: js_def dquote_def)
  from register_script_verbatim_fields [of quotedAnswers monadTestnet]
  obtain pre mid post where
    \<open>generateMonadRegisterScript quotedAnswers monadTestnet =
        pre @ lines_text [js ''  image: "https://example.com/a"b.png",''] @ mid @
        lines_text
          [js ''  supportedTrust: ['' @
           join (js '', '') (map (\<lambda>t. [dquote] @ t @ [dquote]) (trustModels quotedAnswers)) @
           js ''],''] @
        post\<close>
    unfolding f(1) e(1) by blast
  then have \<open>generateMonadRegisterScript quotedAnswers monadTestnet =
        pre @ js ''  image: "https://example.com/a"b.png",'' @
        (LF # mid @
        lines_text
          [js ''  supportedTrust: ['' @
           join (js '', '') (map (\<lambda>t. [dquote] @ t @ [dquote]) (trustModels quotedAnswers)) @
           js ''],''] @
        post)\<close>
    by simp
  then have \<open>\<exists>pre post. generateMonadRegisterScript quotedAnswers monadTestnet =
        pre @ js ''  image: "https://example.com/a"b.png",'' @ post\<close>
    by blast
  moreover from register_script_verbatim_fields [of quotedAnswers monadTestnet]
  have \<open>sublist (js ''"crypto"economic"'') (generateMonadRegisterScript quotedAnswers monadTestnet)\<close>
    unfolding f e(2) [symmetric] by simp
  ultimately show ?thesis ..
qed


subsection \<open>The README\<close>






































subsection \<open>The environment template\<close>

lemma privateKeyValue_cases:
  \<open>privateKeyValue answers =
     (case generatedPrivateKey answers of
        Some k \<Rightarrow> if k \<noteq> [] then k else js ''your_private_key_here''
      | None \<Rightarrow> js ''your_private_key_here'')\<close>
  by (simp add: privateKeyValue_def split: option.splits)

lemma generateMonadEnv_split:
  assumes \<open>LF \<notin> set (privateKeyValue answers)\<close>
    and \<open>LF \<notin> set (chainName chain)\<close> and \<open>LF \<notin> set (rpcUrl chain)\<close>
  shows \<open>splitLF (generateMonadEnv answers chain) =
       [js ''# Required for registration'',
        js ''PRIVATE_KEY='' @ privateKeyValue answers,
        [],
        js ''# RPC URL for '' @ chainName chain,
        js ''RPC_URL='' @ rpcUrl chain,
        [],
        js ''# Pinata JWT for IPFS upload (get from https://pinata.cloud)'',
        js ''PINATA_JWT=your_pinata_jwt_here'',
        [],
        js ''# OpenAI API key for LLM agent'',
        js ''OPENAI_API_KEY=your_openai_api_key_here'',
        []]\<close>
proof -
  define ls where \<open>ls =
       [js ''# Required for registration'',
        js ''PRIVATE_KEY='' @ privateKeyValue answers,
        [],
        js ''# RPC URL for '' @ chainName chain,
        js ''RPC_URL='' @ rpcUrl chain,
        [],
        js ''# Pinata JWT for IPFS upload (get from https://pinata.cloud)'',
        js ''PINATA_JWT=your_pinata_jwt_here'',
        [],
        js ''# OpenAI API key for LLM agent'',
        js ''OPENAI_API_KEY=your_openai_api_key_here'']\<close>
  have out: "generateMonadEnv answers chain = lines_text ls"
    by (simp only: generateMonadEnv_def ls_def)
  from assms have "\<forall>l\<in>set ls. LF \<notin> set l"
    by (simp add: ls_def LF_js)
  then have "splitLF (generateMonadEnv answers chain) = ls @ [[]]"
    unfolding out by (rule splitLF_lines_text)
  then show ?thesis
    by (simp add: ls_def)
qed

text \<open>
  C4, as the code has it. The output of \<^verbatim>\<open>generateMonadEnv\<close> is the eleven lines of the
  template, each ended by a line feed, with the four assignments in the order
  \<^verbatim>\<open>PRIVATE_KEY\<close>, \<^verbatim>\<open>RPC_URL\<close>, \<^verbatim>\<open>PINATA_JWT\<close>, \<^verbatim>\<open>OPENAI_API_KEY\<close>. The value of
  \<^verbatim>\<open>PRIVATE_KEY\<close> is \<^verbatim>\<open>generatedPrivateKey\<close> as it is when the field is present and not
  empty, and the placeholder otherwise; the value of \<^verbatim>\<open>RPC_URL\<close> is \<^verbatim>\<open>chain.rpcUrl\<close>;
  the other two values are placeholders. When the key, the chain name and the RPC
  URL hold no line feed, these are exactly the lines of the output, so each variable
  is assigned on one line only.
\<close>

theorem generateMonadEnv_lines:
  \<open>generateMonadEnv answers chain =
     lines_text
       [js ''# Required for registration'',
        js ''PRIVATE_KEY='' @
          (case generatedPrivateKey answers of
             Some k \<Rightarrow> if k \<noteq> [] then k else js ''your_private_key_here''
           | None \<Rightarrow> js ''your_private_key_here''),
        [],
        js ''# RPC URL for '' @ chainName chain,
        js ''RPC_URL='' @ rpcUrl chain,
        [],
        js ''# Pinata JWT for IPFS upload (get from https://pinata.cloud)'',
        js ''PINATA_JWT=your_pinata_jwt_here'',
        [],
        js ''# OpenAI API key for LLM agent'',
        js ''OPENAI_API_KEY=your_openai_api_key_here''] \<and>
   ((\<forall>k. generatedPrivateKey answers = Some k \<longrightarrow> LF \<notin> set k) \<and>
    LF \<notin> set (chainName chain) \<and> LF \<notin> set (rpcUrl chain) \<longrightarrow>
    splitLF (generateMonadEnv answers chain) =
       [js ''# Required for registration'',
        js ''PRIVATE_KEY='' @
          (case generatedPrivateKey answers of
             Some k \<Rightarrow> if k \<noteq> [] then k else js ''your_private_key_here''
           | None \<Rightarrow> js ''your_private_key_here''),
        [],
        js ''# RPC URL for '' @ chainName chain,
        js ''RPC_URL='' @ rpcUrl chain,
        [],
        js ''# Pinata JWT for IPFS upload (get from https://pinata.cloud)'',
        js ''PINATA_JWT=your_pinata_jwt_here'',
        [],
        js ''# OpenAI API key for LLM agent'',
        js ''OPENAI_API_KEY=your_openai_api_key_here'',
        []])\<close>
proof -
  have \<open>LF \<notin> set (privateKeyValue answers)\<close>
    if \<open>\<forall>k. generatedPrivateKey answers = Some k \<longrightarrow> LF \<notin> set k\<close>
    using that by (auto simp: privateKeyValue_def LF_js split: option.splits)
  then show ?thesis
    using generateMonadEnv_split [of answers chain]
    unfolding privateKeyValue_cases [symmetric]
    by (simp add: generateMonadEnv_def)
qed

theorem generateMonadEnv_lines_witness:
  \<open>splitLF (generateMonadEnv keyAnswers monadTestnet) =
       [js ''# Required for registration'',
        js ''PRIVATE_KEY=0xabc123'',
        [],
        js ''# RPC URL for Monad Testnet'',
        js ''RPC_URL=https://testnet-rpc.monad.xyz'',
        [],
        js ''# Pinata JWT for IPFS upload (get from https://pinata.cloud)'',
        js ''PINATA_JWT=your_pinata_jwt_here'',
        [],
        js ''# OpenAI API key for LLM agent'',
        js ''OPENAI_API_KEY=your_openai_api_key_here'',
        []] \<and>
   splitLF (generateMonadEnv demoAnswers monadTestnet) ! 1 = js ''PRIVATE_KEY=your_private_key_here''\<close>
proof -
  have a: \<open>generatedPrivateKey keyAnswers = Some (js ''0xabc123'')\<close>
    \<open>generatedPrivateKey demoAnswers = None\<close>
    \<open>chainName monadTestnet = js ''Monad Testnet''\<close>
    \<open>rpcUrl monadTestnet = js ''https://testnet-rpc.monad.xyz''\<close>
    by (simp_all add: keyAnswers_def demoAnswers_def monadTestnet_def)
  have b: \<open>js ''PRIVATE_KEY='' @ js ''0xabc123'' = js ''PRIVATE_KEY=0xabc123''\<close>
    \<open>js ''PRIVATE_KEY='' @ js ''your_private_key_here'' = js ''PRIVATE_KEY=your_private_key_here''\<close>
    \<open>js ''# RPC URL for '' @ js ''Monad Testnet'' = js ''# RPC URL for Monad Testnet''\<close>
    \<open>js ''RPC_URL='' @ js ''https://testnet-rpc.monad.xyz'' = js ''RPC_URL=https://testnet-rpc.monad.xyz''\<close>
    by (simp_all add: js_def)
  from generateMonadEnv_lines [of keyAnswers monadTestnet, THEN conjunct2]
    generateMonadEnv_lines [of demoAnswers monadTestnet, THEN conjunct2]
  show ?thesis
    unfolding a by (simp add: LF_js b)
qed

text \<open>
  C4 as the claim words it fails twice. A key that is present and empty is not
  written as it is: the placeholder stands in its place. A key that holds a line
  feed puts a second assignment of \<^verbatim>\<open>RPC_URL\<close> on a line of its own.
\<close>

theorem generateMonadEnv_counterexample:
  \<open>generatedPrivateKey emptyKeyAnswers = Some [] \<and>
   splitLF (generateMonadEnv emptyKeyAnswers monadTestnet) ! 1 =
     js ''PRIVATE_KEY=your_private_key_here'' \<and>
   js ''PRIVATE_KEY=your_private_key_here'' \<noteq> js ''PRIVATE_KEY='' @ [] \<and>
   filter (prefix (js ''RPC_URL='')) (splitLF (generateMonadEnv twoLineKeyAnswers monadTestnet)) =
     [js ''RPC_URL=http://localhost:8545'', js ''RPC_URL=https://testnet-rpc.monad.xyz'']\<close>
proof -
  have e: \<open>generatedPrivateKey emptyKeyAnswers = Some []\<close>
    by (simp add: emptyKeyAnswers_def)
  have c: \<open>chainName monadTestnet = js ''Monad Testnet''\<close>
    \<open>rpcUrl monadTestnet = js ''https://testnet-rpc.monad.xyz''\<close>
    by (simp_all add: monadTestnet_def)
  have b: \<open>js ''PRIVATE_KEY='' @ js ''your_private_key_here'' = js ''PRIVATE_KEY=your_private_key_here''\<close>
    \<open>js ''RPC_URL='' @ js ''https://testnet-rpc.monad.xyz'' = js ''RPC_URL=https://testnet-rpc.monad.xyz''\<close>
    \<open>js ''# RPC URL for '' @ js ''Monad Testnet'' = js ''# RPC URL for Monad Testnet''\<close>
    by (simp_all add: js_def)
  have \<open>privateKeyValue emptyKeyAnswers = js ''your_private_key_here''\<close>
    by (simp add: privateKeyValue_def e)
  with generateMonadEnv_split [of emptyKeyAnswers monadTestnet]
  have 1: \<open>splitLF (generateMonadEnv emptyKeyAnswers monadTestnet) ! 1 =
     js ''PRIVATE_KEY=your_private_key_here''\<close>
    unfolding e c by (simp add: LF_js b)
  define L where \<open>L =
       [js ''# Required for registration'',
        js ''PRIVATE_KEY=0xabc123'',
        js ''RPC_URL=http://localhost:8545'',
        [],
        js ''# RPC URL for Monad Testnet'',
        js ''RPC_URL=https://testnet-rpc.monad.xyz'',
        [],
        js ''# Pinata JWT for IPFS upload (get from https://pinata.cloud)'',
        js ''PINATA_JWT=your_pinata_jwt_here'',
        [],
        js ''# OpenAI API key for LLM agent'',
        js ''OPENAI_API_KEY=your_openai_api_key_here'']\<close>
  have \<open>generateMonadEnv twoLineKeyAnswers monadTestnet = lines_text L\<close>
    by (simp add: generateMonadEnv_def privateKeyValue_def twoLineKeyAnswers_def c L_def)
      (simp add: js_def)
  moreover have \<open>\<forall>l\<in>set L. LF \<notin> set l\<close>
    by (simp add: L_def LF_js)
  ultimately have \<open>splitLF (generateMonadEnv twoLineKeyAnswers monadTestnet) = L @ [[]]\<close>
    by (simp only: splitLF_lines_text)
  then have 2: \<open>filter (prefix (js ''RPC_URL=''))
      (splitLF (generateMonadEnv twoLineKeyAnswers monadTestnet)) =
     [js ''RPC_URL=http://localhost:8545'', js ''RPC_URL=https://testnet-rpc.monad.xyz'']\<close>
    using prefix_js [of \<open>''RPC_URL=''\<close> \<open>[]\<close>] by (simp add: L_def prefix_js)
  from e 1 2 show ?thesis
    by simp
qed

subsection \<open>The private key of the environment template\<close>

text \<open>
  C9. When \<^verbatim>\<open>generatedPrivateKey\<close> is present and is the empty string,
  \<^verbatim>\<open>generateMonadEnv\<close> writes the placeholder \<^verbatim>\<open>your_private_key_here\<close> as the value of
  \<^verbatim>\<open>PRIVATE_KEY\<close>, and its whole output is the one it gives when the field is
  absent: the operator \<^verbatim>\<open>||\<close> decides by truthiness.
\<close>

theorem generateMonadEnv_empty_key:
  assumes \<open>generatedPrivateKey answers = Some []\<close>
  shows \<open>generateMonadEnv answers chain =
           generateMonadEnv (answers\<lparr>generatedPrivateKey := None\<rparr>) chain \<and>
         (\<exists>rest. generateMonadEnv answers chain =
            js ''# Required for registration'' @ [LF] @
            js ''PRIVATE_KEY=your_private_key_here'' @ [LF] @ rest)\<close>
  using assms by (simp add: generateMonadEnv_def privateKeyValue_def js_def)

theorem generateMonadEnv_empty_key_witness:
  \<open>generateMonadEnv (demoAnswers\<lparr>generatedPrivateKey := Some []\<rparr>) monadTestnet =
     generateMonadEnv (demoAnswers\<lparr>generatedPrivateKey := Some [], generatedPrivateKey := None\<rparr>) monadTestnet \<and>
   (\<exists>rest. generateMonadEnv (demoAnswers\<lparr>generatedPrivateKey := Some []\<rparr>) monadTestnet =
      js ''# Required for registration'' @ [LF] @
      js ''PRIVATE_KEY=your_private_key_here'' @ [LF] @ rest)\<close>
  by (rule generateMonadEnv_empty_key) simp


end
